theory Spec2Isabelle
  imports Complex_Main
begin

section \<open>Errors and Python arithmetic\<close>

text \<open>
  Every way the Python code can stop without returning is a value of \<open>error\<close>:
  an \<^verbatim>\<open>assert\<close> that fails, an index out of range, a division by zero, a tensor
  operation on mismatched shapes, and a \<^verbatim>\<open>wait()\<close> on a receive whose message never
  arrives (\<open>Blocked\<close>: the call does not return).
\<close>

datatype error = IndexError | AssertionError | ZeroDivisionError | RuntimeError | Blocked

text \<open>
  \<^verbatim>\<open>int(a / b)\<close>: true division followed by truncation towards zero. The float
  rounding of \<^verbatim>\<open>a / b\<close> for operands beyond 2^53 is not modelled.
\<close>

definition int_truediv :: "int \<Rightarrow> int \<Rightarrow> error + int" where
  "int_truediv a b =
     (if b = 0 then Inl ZeroDivisionError
      else Inr (sgn a * sgn b * (\<bar>a\<bar> div \<bar>b\<bar>)))"

section \<open>Partition validator\<close>

text \<open>
  \<^verbatim>\<open>verify_spatial_master_config\<close> (lines 33-84). The generic validator
  \<^verbatim>\<open>verify_spatial_config\<close> is imported from \<^verbatim>\<open>torchgems.train_spatial\<close>; it is
  the first argument here, returning \<open>Inr ()\<close> when it passes and \<open>Inl e\<close> when it
  raises \<open>e\<close>. The argument \<^verbatim>\<open>spatial_size\<close> is not used by the body.
\<close>

definition verify_spatial_master_config ::
  "(string \<Rightarrow> int \<Rightarrow> int list \<Rightarrow> error + unit) \<Rightarrow>
     string \<Rightarrow> int \<Rightarrow> int list \<Rightarrow> int \<Rightarrow> int \<Rightarrow> error + unit" where
  "verify_spatial_master_config verify_spatial_config slice_method image_size
       num_spatial_parts_list spatial_size mp_size =
     (case num_spatial_parts_list of
        [] \<Rightarrow> Inl IndexError
      | spatial_part_size # _ \<Rightarrow>
          (case verify_spatial_config slice_method image_size num_spatial_parts_list of
             Inl e \<Rightarrow> Inl e
           | Inr _ \<Rightarrow>
               if mp_size \<ge> 2 * spatial_part_size then Inr () else Inl AssertionError))"

section \<open>Tensors, device memory and the communication substrate\<close>

text \<open>
  A tensor is a view of a storage: the address of the storage, the offset of its first
  element, and its shape (all tensors of this file are contiguous, row-major). Device
  memory maps an address to the elements stored there; floats are abstracted to reals.
\<close>

type_synonym addr = nat

record tensor =
  storage :: addr
  offset :: nat
  shape :: "nat list"
  requires_grad :: bool

definition numel :: "tensor \<Rightarrow> nat" where
  "numel t = prod_list (shape t)"

type_synonym memory = "addr \<Rightarrow> real list"

definition read_tensor :: "memory \<Rightarrow> tensor \<Rightarrow> real list" where
  "read_tensor h t = take (numel t) (drop (offset t) (h (storage t)))"

definition write_tensor :: "memory \<Rightarrow> tensor \<Rightarrow> real list \<Rightarrow> memory" where
  "write_tensor h t vals =
     h(storage t := take (offset t) (h (storage t)) @ vals
                      @ drop (offset t + length vals) (h (storage t)))"

text \<open>
  The two replica executors \<^verbatim>\<open>self.train_model1\<close> and \<^verbatim>\<open>self.train_model2\<close> are
  referred to by name; \<open>'x\<close> is a row of the input or label batch and \<open>'y\<close> a tensor
  returned by an executor.
\<close>

datatype replica = TrainModel1 | TrainModel2

datatype request = SendReq tensor int nat | RecvReq tensor int nat

datatype ('x, 'y) event =
    CudaSynchronize
  | Isend tensor int nat
  | Irecv tensor int nat
  | Wait request
  | ForwardPass replica "'x list" "'x list" nat 'y 'y
  | BackwardPass replica 'y nat

text \<open>
  What one rank sees: device memory, the next free storage address, the messages
  that will arrive for the receives this rank posts (in posting order; every receive of
  this class names the same source and tag), and the calls issued so far to the
  communication substrate and to the executors.
\<close>

record ('x, 'y) world =
  heap :: memory
  next_addr :: addr
  inbox :: "real list list"
  trace :: "('x, 'y) event list"

type_synonym ('a, 'x, 'y) act = "('x, 'y) world \<Rightarrow> error + ('a \<times> ('x, 'y) world)"

definition pure_m :: "'a \<Rightarrow> ('a, 'x, 'y) act" where
  "pure_m a w = Inr (a, w)"

definition then_m :: "('a, 'x, 'y) act \<Rightarrow> ('a \<Rightarrow> ('b, 'x, 'y) act) \<Rightarrow> ('b, 'x, 'y) act" where
  "then_m m f w = (case m w of Inl e \<Rightarrow> Inl e | Inr (a, w') \<Rightarrow> f a w')"

definition lift_m :: "error + 'a \<Rightarrow> ('a, 'x, 'y) act" where
  "lift_m r w = (case r of Inl e \<Rightarrow> Inl e | Inr a \<Rightarrow> Inr (a, w))"

definition log :: "('x, 'y) event \<Rightarrow> ('x, 'y) world \<Rightarrow> ('x, 'y) world" where
  "log e w = w\<lparr>trace := trace w @ [e]\<rparr>"

text \<open>\<^verbatim>\<open>torch.cuda.synchronize()\<close>.\<close>

definition cuda_synchronize :: "(unit, 'x, 'y) act" where
  "cuda_synchronize w = Inr ((), log CudaSynchronize w)"

text \<open>\<^verbatim>\<open>torch.zeros([n], requires_grad=rg, device="cuda")\<close>: a fresh storage of n zeros.\<close>

definition torch_zeros :: "nat \<Rightarrow> bool \<Rightarrow> (tensor, 'x, 'y) act" where
  "torch_zeros n rg w =
     Inr (\<lparr>storage = next_addr w, offset = 0, shape = [n], requires_grad = rg\<rparr>,
          w\<lparr>heap := (heap w)(next_addr w := replicate n 0), next_addr := Suc (next_addr w)\<rparr>)"

text \<open>
  \<^verbatim>\<open>dist.isend\<close> and \<^verbatim>\<open>dist.irecv\<close> return a handle at once. \<^verbatim>\<open>wait()\<close> on a send
  handle returns; on a receive handle it returns once the next incoming message has been
  written into the tensor, and never returns when no message arrives. A message whose
  length differs from the tensor's is a transport error.
\<close>

definition dist_isend :: "tensor \<Rightarrow> int \<Rightarrow> nat \<Rightarrow> (request, 'x, 'y) act" where
  "dist_isend t dst tag w = Inr (SendReq t dst tag, log (Isend t dst tag) w)"

definition dist_irecv :: "tensor \<Rightarrow> int \<Rightarrow> nat \<Rightarrow> (request, 'x, 'y) act" where
  "dist_irecv t src tag w = Inr (RecvReq t src tag, log (Irecv t src tag) w)"

definition wait :: "request \<Rightarrow> (unit, 'x, 'y) act" where
  "wait req w =
     (case req of
        SendReq t dst tag \<Rightarrow> Inr ((), log (Wait req) w)
      | RecvReq t src tag \<Rightarrow>
          (case inbox w of
             [] \<Rightarrow> Inl Blocked
           | m # ms \<Rightarrow>
               if length m = numel t
               then Inr ((), log (Wait req) (w\<lparr>heap := write_tensor (heap w) t m, inbox := ms\<rparr>))
               else Inl RuntimeError))"

text \<open>
  \<^verbatim>\<open>a += b\<close> on one-dimensional tensors: elementwise when the lengths agree, \<open>b\<close>
  broadcast when it has one element, a shape error otherwise.
\<close>

definition tensor_iadd :: "tensor \<Rightarrow> tensor \<Rightarrow> (unit, 'x, 'y) act" where
  "tensor_iadd a b w =
     (case (shape a, shape b) of
        ([n], [m]) \<Rightarrow>
          if m = n
          then Inr ((), w\<lparr>heap := write_tensor (heap w) a
                          (map2 (+) (read_tensor (heap w) a) (read_tensor (heap w) b))\<rparr>)
          else if m = 1
          then Inr ((), w\<lparr>heap := write_tensor (heap w) a
                          (map (\<lambda>x. x + hd (read_tensor (heap w) b)) (read_tensor (heap w) a))\<rparr>)
          else Inl RuntimeError
      | _ \<Rightarrow> Inl RuntimeError)"

section \<open>The orchestrator object\<close>

record mpi_comm =
  comm_mp_size :: int
  comm_local_rank :: int

record train_model_spatial =
  tm_local_rank :: int
  split_rank :: int
  tm_split_size :: int

record master =
  mp_size :: int
  split_size :: int
  local_rank :: int
  mpi_comm_first :: mpi_comm
  mpi_comm_second :: mpi_comm
  model1_size :: nat
  model2_size :: nat
  flat_params_model1 :: tensor
  flat_params_model2 :: tensor
  flat_grads_model1 :: tensor
  flat_grads_model2 :: tensor
  train_model1 :: train_model_spatial
  train_model2 :: train_model_spatial
  parts :: nat
  ENABLE_ASYNC :: bool
  batch_size :: nat
  replications :: nat

section \<open>Cross-replica exchange protocol\<close>

text \<open>\<^verbatim>\<open>send_params_model\<close> (lines 229-237) and \<^verbatim>\<open>recv_params_model\<close> (lines 239-246).\<close>

definition send_params_model :: "master \<Rightarrow> int \<Rightarrow> bool \<Rightarrow> (request, 'x, 'y) act" where
  "send_params_model self send_rank odd_iteration =
     (if odd_iteration
      then dist_isend (flat_params_model2 self) send_rank 0
      else dist_isend (flat_params_model1 self) send_rank 0)"

definition recv_params_model :: "master \<Rightarrow> int \<Rightarrow> bool \<Rightarrow> (request, 'x, 'y) act" where
  "recv_params_model self recv_rank odd_iteration =
     (if odd_iteration
      then dist_irecv (flat_params_model1 self) recv_rank 0
      else dist_irecv (flat_params_model2 self) recv_rank 0)"

text \<open>\<^verbatim>\<open>send_recv_params\<close> (lines 248-272).\<close>

definition send_recv_params :: "master \<Rightarrow> bool \<Rightarrow> (unit, 'x, 'y) act" where
  "send_recv_params self odd_iteration =
     (let local_rank' = comm_local_rank (mpi_comm_first self);
          send_recv_rank = mp_size self - 1 - local_rank'
      in then_m cuda_synchronize (\<lambda>_.
         then_m (lift_m (int_truediv (mp_size self) 2)) (\<lambda>half.
         then_m (if local_rank self < half
                 then then_m (send_params_model self send_recv_rank odd_iteration) (\<lambda>req1.
                      then_m (recv_params_model self send_recv_rank odd_iteration) (\<lambda>req2.
                      pure_m (req1, req2)))
                 else then_m (recv_params_model self send_recv_rank odd_iteration) (\<lambda>req1.
                      then_m (send_params_model self send_recv_rank odd_iteration) (\<lambda>req2.
                      pure_m (req1, req2))))
           (\<lambda>(req1, req2).
         then_m (wait req1) (\<lambda>_. wait req2)))))"

text \<open>
  \<^verbatim>\<open>send_grads_model\<close> (lines 275-283), \<^verbatim>\<open>recv_grads_model\<close> (lines 285-294) and
  \<^verbatim>\<open>send_recv_grads\<close> (lines 296-325).
\<close>

definition send_grads_model :: "master \<Rightarrow> int \<Rightarrow> bool \<Rightarrow> (request, 'x, 'y) act" where
  "send_grads_model self send_rank odd_iteration =
     (if odd_iteration
      then dist_isend (flat_grads_model2 self) send_rank 0
      else dist_isend (flat_grads_model1 self) send_rank 0)"

definition recv_grads_model :: "master \<Rightarrow> tensor \<Rightarrow> int \<Rightarrow> (request, 'x, 'y) act" where
  "recv_grads_model self recv_grads recv_rank = dist_irecv recv_grads recv_rank 0"

definition send_recv_grads :: "master \<Rightarrow> bool \<Rightarrow> (unit, 'x, 'y) act" where
  "send_recv_grads self odd_iteration =
     (let local_rank' = comm_local_rank (mpi_comm_first self);
          send_recv_rank = mp_size self - 1 - local_rank'
      in then_m (if odd_iteration
                 then torch_zeros (model1_size self) False
                 else torch_zeros (model2_size self) False) (\<lambda>flat_grads_recv.
         then_m cuda_synchronize (\<lambda>_.
         then_m (lift_m (int_truediv (mp_size self) 2)) (\<lambda>half.
         then_m (if local_rank self \<ge> half
                 then then_m (send_grads_model self send_recv_rank odd_iteration) (\<lambda>req1.
                      then_m (recv_grads_model self flat_grads_recv send_recv_rank) (\<lambda>req2.
                      pure_m (req1, req2)))
                 else then_m (send_grads_model self send_recv_rank odd_iteration) (\<lambda>req1.
                      then_m (recv_grads_model self flat_grads_recv send_recv_rank) (\<lambda>req2.
                      pure_m (req1, req2))))
           (\<lambda>(req1, req2).
         then_m (wait req1) (\<lambda>_.
         then_m (wait req2) (\<lambda>_.
         if odd_iteration
         then tensor_iadd (flat_grads_model1 self) flat_grads_recv
         else tensor_iadd (flat_grads_model2 self) flat_grads_recv)))))))"

section \<open>Flat buffer manager\<close>

text \<open>
  A model parameter has a data tensor and a gradient slot. \<^verbatim>\<open>flat[a:b]\<close> slices the
  first dimension with Python's clamping of the bounds and shares the storage;
  \<^verbatim>\<open>t.view(shape)\<close> shares it too and raises unless the element counts agree.
\<close>

record param =
  data :: tensor
  grad :: "tensor option"

record model_gen =
  models :: "param list"
  gen_split_size :: int

definition slice_tensor :: "tensor \<Rightarrow> nat \<Rightarrow> nat \<Rightarrow> error + tensor" where
  "slice_tensor t a b =
     (case shape t of
        [] \<Rightarrow> Inl IndexError
      | n # rest \<Rightarrow>
          Inr (t\<lparr>offset := offset t + min a n * prod_list rest,
                 shape := (min b n - min a n) # rest\<rparr>))"

definition view :: "tensor \<Rightarrow> nat list \<Rightarrow> error + tensor" where
  "view t shp = (if prod_list shp = numel t then Inr (t\<lparr>shape := shp\<rparr>) else Inl RuntimeError)"

text \<open>
  \<^verbatim>\<open>params.data = v\<close> makes the parameter a view of \<open>v\<close>'s storage and keeps the
  parameter's own \<^verbatim>\<open>requires_grad\<close>.
\<close>

definition set_data :: "param \<Rightarrow> tensor \<Rightarrow> param" where
  "set_data p v = p\<lparr>data := v\<lparr>requires_grad := requires_grad (data p)\<rparr>\<rparr>"

text \<open>\<^verbatim>\<open>update_model_params_loc\<close> (lines 187-192): the loop, from \<^verbatim>\<open>index_size\<close> on.\<close>

fun params_loc_loop :: "tensor \<Rightarrow> nat \<Rightarrow> param list \<Rightarrow> error + param list" where
  "params_loc_loop flat_params index_size [] = Inr []"
| "params_loc_loop flat_params index_size (params # rest) =
     (let last_index = index_size + numel (data params)
      in case slice_tensor flat_params index_size last_index of
           Inl e \<Rightarrow> Inl e
         | Inr sl \<Rightarrow>
             (case view sl (shape (data params)) of
                Inl e \<Rightarrow> Inl e
              | Inr v \<Rightarrow>
                  (case params_loc_loop flat_params last_index rest of
                     Inl e \<Rightarrow> Inl e
                   | Inr rest' \<Rightarrow> Inr (set_data params v # rest'))))"

definition update_model_params_loc :: "param list \<Rightarrow> tensor \<Rightarrow> error + param list" where
  "update_model_params_loc model flat_params = params_loc_loop flat_params 0 model"

text \<open>\<^verbatim>\<open>update_model_grads_loc\<close> (lines 194-199).\<close>

fun grads_loc_loop :: "tensor \<Rightarrow> nat \<Rightarrow> param list \<Rightarrow> error + param list" where
  "grads_loc_loop flat_grads index_size [] = Inr []"
| "grads_loc_loop flat_grads index_size (params # rest) =
     (let last_index = index_size + numel (data params)
      in case slice_tensor flat_grads index_size last_index of
           Inl e \<Rightarrow> Inl e
         | Inr sl \<Rightarrow>
             (case view sl (shape (data params)) of
                Inl e \<Rightarrow> Inl e
              | Inr v \<Rightarrow>
                  (case grads_loc_loop flat_grads last_index rest of
                     Inl e \<Rightarrow> Inl e
                   | Inr rest' \<Rightarrow> Inr (params\<lparr>grad := Some v\<rparr> # rest'))))"

definition update_model_grads_loc :: "param list \<Rightarrow> tensor \<Rightarrow> error + param list" where
  "update_model_grads_loc model flat_grads = grads_loc_loop flat_grads 0 model"

text \<open>\<^verbatim>\<open>get_model_parameter_size\<close> (lines 201-205).\<close>

definition get_model_parameter_size :: "model_gen \<Rightarrow> nat" where
  "get_model_parameter_size mg = foldl (\<lambda>size p. size + numel (data p)) 0 (models mg)"

text \<open>
  \<^verbatim>\<open>__init__\<close> (lines 88-182). The two executors are built by the external
  \<^verbatim>\<open>train_model_spatial\<close> constructor and are arguments here. The constructor mutates
  the parameters of both models, so the updated models are returned with the object.
\<close>

definition init ::
  "model_gen \<Rightarrow> model_gen \<Rightarrow> nat \<Rightarrow> mpi_comm \<Rightarrow> mpi_comm \<Rightarrow>
     train_model_spatial \<Rightarrow> train_model_spatial \<Rightarrow> nat \<Rightarrow> bool \<Rightarrow> nat \<Rightarrow>
     (master \<times> model_gen \<times> model_gen, 'x, 'y) act" where
  "init model_gen1 model_gen2 batch_size' mpi_comm_first' mpi_comm_second' tm1 tm2
       parts' ASYNC replications' =
     (let size1 = get_model_parameter_size model_gen1;
          size2 = get_model_parameter_size model_gen2
      in then_m (torch_zeros size1 True) (\<lambda>fp1.
         then_m (torch_zeros size2 True) (\<lambda>fp2.
         then_m (torch_zeros size1 False) (\<lambda>fg1.
         then_m (torch_zeros size2 False) (\<lambda>fg2.
         then_m (lift_m (update_model_params_loc (models model_gen1) fp1)) (\<lambda>m1.
         then_m (lift_m (update_model_params_loc (models model_gen2) fp2)) (\<lambda>m2.
         then_m (lift_m (update_model_grads_loc m1 fg1)) (\<lambda>m1'.
         then_m (lift_m (update_model_grads_loc m2 fg2)) (\<lambda>m2'.
         pure_m
           (\<lparr>mp_size = comm_mp_size mpi_comm_first',
             split_size = gen_split_size model_gen1,
             local_rank = comm_local_rank mpi_comm_first',
             mpi_comm_first = mpi_comm_first',
             mpi_comm_second = mpi_comm_second',
             model1_size = size1,
             model2_size = size2,
             flat_params_model1 = fp1,
             flat_params_model2 = fp2,
             flat_grads_model1 = fg1,
             flat_grads_model2 = fg2,
             train_model1 = tm1,
             train_model2 = tm2,
             parts = parts',
             ENABLE_ASYNC = ASYNC,
             batch_size = batch_size',
             replications = replications'\<rparr>,
            model_gen1\<lparr>models := m1'\<rparr>,
            model_gen2\<lparr>models := m2'\<rparr>))))))))))"

text \<open>
  Reading and writing one element of a tensor, \<^verbatim>\<open>t[i, j, ...]\<close> and
  \<^verbatim>\<open>t[i, j, ...] = v\<close>: the row-major position of the index in the tensor's shape,
  counted from the tensor's offset in its storage.
\<close>

fun ravel :: "nat list \<Rightarrow> nat list \<Rightarrow> nat \<Rightarrow> error + nat" where
  "ravel [] [] acc = Inr acc"
| "ravel (d # ds) (i # is) acc = (if i < d then ravel ds is (acc * d + i) else Inl IndexError)"
| "ravel _ _ acc = Inl IndexError"

definition get_item :: "memory \<Rightarrow> tensor \<Rightarrow> nat list \<Rightarrow> error + real" where
  "get_item h t idx =
     (case ravel (shape t) idx 0 of
        Inl e \<Rightarrow> Inl e
      | Inr k \<Rightarrow> Inr (h (storage t) ! (offset t + k)))"

definition set_item :: "memory \<Rightarrow> tensor \<Rightarrow> nat list \<Rightarrow> real \<Rightarrow> error + memory" where
  "set_item h t idx v =
     (case ravel (shape t) idx 0 of
        Inl e \<Rightarrow> Inl e
      | Inr k \<Rightarrow> Inr (h(storage t := (h (storage t))[offset t + k := v])))"

section \<open>Dual-replica step scheduler\<close>

text \<open>
  The replica executor is an external collaborator: \<^verbatim>\<open>forward_pass\<close> returns two
  tensors and may change device memory, \<^verbatim>\<open>backward_pass\<close> changes device memory, and
  \<^verbatim>\<open>item()\<close> reads a scalar tensor.
\<close>

record ('x, 'y) executor =
  forward_pass :: "replica \<Rightarrow> 'x list \<Rightarrow> 'x list \<Rightarrow> nat \<Rightarrow> memory \<Rightarrow> ('y \<times> 'y) \<times> memory"
  backward_pass :: "replica \<Rightarrow> 'y \<Rightarrow> nat \<Rightarrow> memory \<Rightarrow> memory"
  item :: "'y \<Rightarrow> real"

definition call_forward ::
  "('x, 'y) executor \<Rightarrow> replica \<Rightarrow> 'x list \<Rightarrow> 'x list \<Rightarrow> nat \<Rightarrow> ('y \<times> 'y, 'x, 'y) act" where
  "call_forward ex tm dx dy i w =
     (case forward_pass ex tm dx dy i (heap w) of
        ((y, c), h') \<Rightarrow> Inr ((y, c), log (ForwardPass tm dx dy i y c) (w\<lparr>heap := h'\<rparr>)))"

definition call_backward ::
  "('x, 'y) executor \<Rightarrow> replica \<Rightarrow> 'y \<Rightarrow> nat \<Rightarrow> (unit, 'x, 'y) act" where
  "call_backward ex tm y i w =
     Inr ((), log (BackwardPass tm y i) (w\<lparr>heap := backward_pass ex tm y i (heap w)\<rparr>))"

definition tm_of :: "master \<Rightarrow> replica \<Rightarrow> train_model_spatial" where
  "tm_of self r = (case r of TrainModel1 \<Rightarrow> train_model1 self | TrainModel2 \<Rightarrow> train_model2 self)"

text \<open>\<^verbatim>\<open>xs[a:b]\<close> for non-negative bounds.\<close>

definition py_slice :: "'a list \<Rightarrow> nat \<Rightarrow> nat \<Rightarrow> 'a list" where
  "py_slice xs a b = take (b - a) (drop a xs)"

text \<open>
  The forward loop (lines 359-370 and 419-430) over the part numbers still to run, with
  \<^verbatim>\<open>y_list\<close>, \<^verbatim>\<open>loss\<close> and \<^verbatim>\<open>corrects\<close> as they stand.
\<close>

fun forward_loop ::
  "('x, 'y) executor \<Rightarrow> master \<Rightarrow> replica \<Rightarrow> 'x list \<Rightarrow> 'x list \<Rightarrow> nat \<Rightarrow> nat list \<Rightarrow>
     'y list \<times> real \<times> real \<Rightarrow> ('y list \<times> real \<times> real, 'x, 'y) act" where
  "forward_loop ex self tm data_x data_y parts_size [] acc = pure_m acc"
| "forward_loop ex self tm data_x data_y parts_size (i # rest) (y_list, loss, corrects) =
     (let start = i * parts_size;
          end' = (i + 1) * parts_size
      in then_m (call_forward ex tm (py_slice data_x start end') (py_slice data_y start end') i)
           (\<lambda>(temp_y, temp_correct).
              forward_loop ex self tm data_x data_y parts_size rest
                (if split_rank (tm_of self tm) = tm_split_size (tm_of self tm) - 1
                 then (y_list @ [temp_y], loss + item ex temp_y, corrects + item ex temp_correct)
                 else (y_list @ [temp_y], loss, corrects))))"

text \<open>The backward loop (lines 375-377 and 438-440).\<close>

fun backward_loop ::
  "('x, 'y) executor \<Rightarrow> replica \<Rightarrow> 'y list \<Rightarrow> nat list \<Rightarrow> (unit, 'x, 'y) act" where
  "backward_loop ex tm y_list [] = pure_m ()"
| "backward_loop ex tm y_list (i # rest) =
     (if i < length y_list
      then then_m (call_backward ex tm (y_list ! i) i) (\<lambda>_. backward_loop ex tm y_list rest)
      else (\<lambda>w. Inl IndexError))"

text \<open>
  \<^verbatim>\<open>run_step_allreduce\<close>, the first replica's part (lines 344-389): returns
  \<^verbatim>\<open>loss\<close> and \<^verbatim>\<open>corrects\<close>.
\<close>

definition first_replica_part ::
  "('x, 'y) executor \<Rightarrow> master \<Rightarrow> replica \<Rightarrow> 'x list \<Rightarrow> 'x list \<Rightarrow> bool \<Rightarrow> nat \<Rightarrow>
     real \<times> real \<Rightarrow> (real \<times> real, 'x, 'y) act" where
  "first_replica_part ex self tm1 inputs labels odd_iteration parts_size lc =
     (let data_x = take (batch_size self) inputs;
          data_y = take (batch_size self) labels
      in then_m (if tm_local_rank (tm_of self tm1) = mp_size self - 1
                 then (let recv_rank = (if odd_iteration then tm_local_rank (tm_of self tm1)
                                        else mp_size self - 1 - tm_local_rank (tm_of self tm1));
                           recv_rank = mp_size self - 1 - local_rank self
                       in then_m (recv_params_model self recv_rank odd_iteration) wait)
                 else pure_m ()) (\<lambda>_.
         then_m (forward_loop ex self tm1 data_x data_y parts_size [0..<parts self]
                   ([], fst lc, snd lc)) (\<lambda>(y_list, loss, corrects).
         then_m (if tm_local_rank (tm_of self tm1) \<noteq> mp_size self - 1
                 then send_recv_params self odd_iteration
                 else pure_m ()) (\<lambda>_.
         then_m (backward_loop ex tm1 y_list [0..<parts self]) (\<lambda>_.
         then_m (if tm_local_rank (tm_of self tm1) = mp_size self - 1
                 then (let send_rank = (if odd_iteration then tm_local_rank (tm_of self tm1)
                                        else mp_size self - 1 - tm_local_rank (tm_of self tm1));
                           send_rank = mp_size self - 1 - local_rank self
                       in then_m (send_params_model self send_rank odd_iteration) wait)
                 else pure_m ()) (\<lambda>_.
         pure_m (loss, corrects)))))))"

text \<open>\<^verbatim>\<open>run_step_allreduce\<close>, the second replica's part (lines 393-452).\<close>

definition second_replica_part ::
  "('x, 'y) executor \<Rightarrow> master \<Rightarrow> replica \<Rightarrow> 'x list \<Rightarrow> 'x list \<Rightarrow> bool \<Rightarrow> nat \<Rightarrow>
     real \<times> real \<Rightarrow> (real \<times> real, 'x, 'y) act" where
  "second_replica_part ex self tm2 inputs labels odd_iteration parts_size lc =
     (let data_x = drop (batch_size self) inputs;
          data_y = drop (batch_size self) labels
      in then_m (if tm_local_rank (tm_of self tm2) = mp_size self - 1
                 then then_m (if odd_iteration
                              then then_m (torch_zeros (model1_size self) False)
                                     (\<lambda>r. pure_m (r, mp_size self - 1))
                              else then_m (torch_zeros (model2_size self) False)
                                     (\<lambda>r. pure_m (r, tm_local_rank (tm_of self tm2))))
                        (\<lambda>(flat_grads_recv, recv_rank).
                      (let recv_rank = mp_size self - 1 - local_rank self
                       in then_m (recv_grads_model self flat_grads_recv recv_rank) (\<lambda>req1.
                          then_m (wait req1) (\<lambda>_.
                          if odd_iteration
                          then tensor_iadd (flat_grads_model1 self) flat_grads_recv
                          else tensor_iadd (flat_grads_model2 self) flat_grads_recv))))
                 else pure_m ()) (\<lambda>_.
         then_m (forward_loop ex self tm2 data_x data_y parts_size [0..<parts self]
                   ([], fst lc, snd lc)) (\<lambda>(y_list, loss, corrects).
         then_m (if tm_local_rank (tm_of self tm2) \<noteq> mp_size self - 1
                 then send_recv_grads self odd_iteration
                 else pure_m ()) (\<lambda>_.
         then_m (backward_loop ex tm2 y_list [0..<parts self]) (\<lambda>_.
         then_m (if tm_local_rank (tm_of self tm2) = mp_size self - 1
                 then (let send_rank = (if odd_iteration then mp_size self - 1
                                        else tm_local_rank (tm_of self tm2));
                           send_rank = mp_size self - 1 - local_rank self
                       in then_m (send_grads_model self send_rank odd_iteration) wait)
                 else pure_m ()) (\<lambda>_.
         pure_m (loss, corrects)))))))"

text \<open>
  \<^verbatim>\<open>run_step_allreduce\<close> (lines 327-455). \<^verbatim>\<open>int(self.batch_size / self.parts)\<close>
  raises when \<^verbatim>\<open>parts\<close> is zero.
\<close>

definition run_step_allreduce ::
  "('x, 'y) executor \<Rightarrow> master \<Rightarrow> 'x list \<Rightarrow> 'x list \<Rightarrow> bool \<Rightarrow> (real \<times> real, 'x, 'y) act" where
  "run_step_allreduce ex self inputs labels odd_iteration =
     then_m (lift_m (int_truediv (int (batch_size self)) (int (parts self)))) (\<lambda>ps.
       (let parts_size = nat ps;
            tm1 = (if odd_iteration then TrainModel2 else TrainModel1);
            tm2 = (if odd_iteration then TrainModel1 else TrainModel2)
        in then_m (first_replica_part ex self tm1 inputs labels odd_iteration parts_size (0, 0))
             (\<lambda>lc. second_replica_part ex self tm2 inputs labels odd_iteration parts_size lc)))"

section \<open>A concrete orchestrator\<close>

text \<open>
  Two models with parameters of shapes (3, 4) and (5), 17 elements each, on a group of
  \<open>mp\<close> ranks; \<open>example_self mp r\<close> is the object \<^verbatim>\<open>__init__\<close> builds for them on
  rank \<open>r\<close>, with batch size 8 and 2 parts.
\<close>

definition example_model1 :: model_gen where
  "example_model1 =
     \<lparr>models = [\<lparr>data = \<lparr>storage = 0, offset = 0, shape = [3, 4], requires_grad = True\<rparr>, grad = None\<rparr>,
                 \<lparr>data = \<lparr>storage = 1, offset = 0, shape = [5], requires_grad = True\<rparr>, grad = None\<rparr>],
       gen_split_size = 2\<rparr>"

definition example_model2 :: model_gen where
  "example_model2 =
     \<lparr>models = [\<lparr>data = \<lparr>storage = 2, offset = 0, shape = [3, 4], requires_grad = True\<rparr>, grad = None\<rparr>,
                 \<lparr>data = \<lparr>storage = 3, offset = 0, shape = [5], requires_grad = True\<rparr>, grad = None\<rparr>],
       gen_split_size = 2\<rparr>"

definition example_world :: "(nat, real) world" where
  "example_world =
     \<lparr>heap = (\<lambda>a. if a = 0 \<or> a = 2 then replicate 12 1 else if a = 1 \<or> a = 3 then replicate 5 1 else []),
       next_addr = 4, inbox = [], trace = []\<rparr>"

definition example_self :: "int \<Rightarrow> int \<Rightarrow> master" where
  "example_self mp r =
     \<lparr>mp_size = mp, split_size = 2, local_rank = r,
       mpi_comm_first = \<lparr>comm_mp_size = mp, comm_local_rank = r\<rparr>,
       mpi_comm_second = \<lparr>comm_mp_size = mp, comm_local_rank = mp - 1 - r\<rparr>,
       model1_size = 17, model2_size = 17,
       flat_params_model1 = \<lparr>storage = 4, offset = 0, shape = [17], requires_grad = True\<rparr>,
       flat_params_model2 = \<lparr>storage = 5, offset = 0, shape = [17], requires_grad = True\<rparr>,
       flat_grads_model1 = \<lparr>storage = 6, offset = 0, shape = [17], requires_grad = False\<rparr>,
       flat_grads_model2 = \<lparr>storage = 7, offset = 0, shape = [17], requires_grad = False\<rparr>,
       train_model1 = \<lparr>tm_local_rank = r, split_rank = 1, tm_split_size = 2\<rparr>,
       train_model2 = \<lparr>tm_local_rank = mp - 1 - r, split_rank = 1, tm_split_size = 2\<rparr>,
       parts = 2, ENABLE_ASYNC = True, batch_size = 8, replications = 1\<rparr>"

text \<open>
  What \<^verbatim>\<open>__init__\<close> leaves behind: each flat buffer is a one-dimensional tensor of its
  model's size that fills a storage of its own, allocated before the next free address.
\<close>

definition flat_buffer :: "tensor \<Rightarrow> nat \<Rightarrow> bool \<Rightarrow> ('x, 'y) world \<Rightarrow> bool" where
  "flat_buffer t n rg w \<longleftrightarrow>
     offset t = 0 \<and> shape t = [n] \<and> requires_grad t = rg \<and>
     storage t < next_addr w \<and> length (heap w (storage t)) = n"

definition buffers_allocated :: "master \<Rightarrow> ('x, 'y) world \<Rightarrow> bool" where
  "buffers_allocated self w \<longleftrightarrow>
     flat_buffer (flat_params_model1 self) (model1_size self) True w \<and>
     flat_buffer (flat_params_model2 self) (model2_size self) True w \<and>
     flat_buffer (flat_grads_model1 self) (model1_size self) False w \<and>
     flat_buffer (flat_grads_model2 self) (model2_size self) False w \<and>
     distinct [storage (flat_params_model1 self), storage (flat_params_model2 self),
               storage (flat_grads_model1 self), storage (flat_grads_model2 self)]"

text \<open>The exchange partner \<^verbatim>\<open>self.mp_size - 1 - local_rank\<close> of lines 249-250 and 297-298.\<close>

abbreviation partner_rank :: "master \<Rightarrow> int" where
  "partner_rank self \<equiv> mp_size self - 1 - comm_local_rank (mpi_comm_first self)"

definition example_inbox_world :: "(nat, real) world" where
  "example_inbox_world =
     \<lparr>heap = (\<lambda>a. if a = 4 \<or> a = 5 then replicate 17 1 else if a = 6 \<or> a = 7 then replicate 17 3 else []),
       next_addr = 8, inbox = [replicate 17 2, replicate 17 0], trace = []\<rparr>"

section \<open>Slices of a flat buffer\<close>

text \<open>
  Where the slice of parameter \<open>i\<close> starts: the element counts of the parameters before
  it, added up. \<open>region\<close> is the index range a tensor occupies in its storage;
  \<open>contiguous_slices\<close> says that the first tensor starts at 0, each next one starts
  where the one before ends, no two overlap, and together they cover \<open>0..<n\<close>;
  \<open>aliases\<close> says that every parameter's data and gradient are the views of the flat
  buffers at the parameter's slice, in the parameter's own shape.
\<close>

definition slice_start :: "param list \<Rightarrow> nat \<Rightarrow> nat" where
  "slice_start ps i = sum_list (map (\<lambda>p. numel (data p)) (take i ps))"

definition region :: "tensor \<Rightarrow> nat set" where
  "region t = {offset t ..< offset t + numel t}"

definition contiguous_slices :: "tensor list \<Rightarrow> nat \<Rightarrow> bool" where
  "contiguous_slices ts n \<longleftrightarrow>
     (ts \<noteq> [] \<longrightarrow> offset (ts ! 0) = 0) \<and>
     (\<forall>i. Suc i < length ts \<longrightarrow> offset (ts ! Suc i) = offset (ts ! i) + numel (ts ! i)) \<and>
     (\<forall>i j. i < j \<and> j < length ts \<longrightarrow> region (ts ! i) \<inter> region (ts ! j) = {}) \<and>
     (\<Union>i<length ts. region (ts ! i)) = {0..<n}"

definition aliases :: "tensor \<Rightarrow> tensor \<Rightarrow> param list \<Rightarrow> param list \<Rightarrow> bool" where
  "aliases flat_params flat_grads ps ps' \<longleftrightarrow>
     length ps' = length ps \<and>
     (\<forall>i<length ps.
        data (ps' ! i) = \<lparr>storage = storage flat_params, offset = slice_start ps i,
                           shape = shape (data (ps ! i)),
                           requires_grad = requires_grad (data (ps ! i))\<rparr> \<and>
        grad (ps' ! i) = Some \<lparr>storage = storage flat_grads, offset = slice_start ps i,
                                shape = shape (data (ps ! i)), requires_grad = False\<rparr>)"

section \<open>Reading a step's trace\<close>

text \<open>
  What the executor returns over a run of the forward loop, and the memory it leaves:
  the loop's calls in order, each on the memory the call before left.
\<close>

fun forward_outputs ::
  "('x, 'y) executor \<Rightarrow> replica \<Rightarrow> 'x list \<Rightarrow> 'x list \<Rightarrow> nat \<Rightarrow> nat list \<Rightarrow> memory \<Rightarrow>
     ('y \<times> 'y) list \<times> memory" where
  "forward_outputs ex tm dx dy ps [] h = ([], h)"
| "forward_outputs ex tm dx dy ps (i # rest) h =
     (let r = forward_pass ex tm (py_slice dx (i * ps) ((i + 1) * ps))
                (py_slice dy (i * ps) ((i + 1) * ps)) i h;
          rs = forward_outputs ex tm dx dy ps rest (snd r)
      in (fst r # fst rs, snd rs))"

text \<open>The events the forward loop logs for those results.\<close>

definition forward_events ::
  "replica \<Rightarrow> 'x list \<Rightarrow> 'x list \<Rightarrow> nat \<Rightarrow> nat list \<Rightarrow> ('y \<times> 'y) list \<Rightarrow> ('x, 'y) event list" where
  "forward_events tm dx dy ps is ycs =
     map2 (\<lambda>i yc. ForwardPass tm (py_slice dx (i * ps) ((i + 1) * ps))
                      (py_slice dy (i * ps) ((i + 1) * ps)) i (fst yc) (snd yc)) is ycs"

text \<open>The pipeline's terminal stage: \<^verbatim>\<open>tm.split_rank == tm.split_size - 1\<close>.\<close>

definition terminal :: "master \<Rightarrow> replica \<Rightarrow> bool" where
  "terminal self tm \<longleftrightarrow> split_rank (tm_of self tm) = tm_split_size (tm_of self tm) - 1"

text \<open>
  The \<^verbatim>\<open>forward_pass\<close> calls of a trace with their arguments and results, and all
  executor calls of a trace with their replica, direction and part number.
\<close>

fun forward_calls ::
  "('x, 'y) event list \<Rightarrow> (replica \<times> 'x list \<times> 'x list \<times> nat \<times> 'y \<times> 'y) list" where
  "forward_calls [] = []"
| "forward_calls (ForwardPass tm dx dy i y c # es) = (tm, dx, dy, i, y, c) # forward_calls es"
| "forward_calls (_ # es) = forward_calls es"

datatype pass = Forward | Backward

fun executor_calls :: "('x, 'y) event list \<Rightarrow> (replica \<times> pass \<times> nat) list" where
  "executor_calls [] = []"
| "executor_calls (ForwardPass tm dx dy i y c # es) = (tm, Forward, i) # executor_calls es"
| "executor_calls (BackwardPass tm y i # es) = (tm, Backward, i) # executor_calls es"
| "executor_calls (_ # es) = executor_calls es"

text \<open>
  The events of one \<^verbatim>\<open>send_recv_params\<close> and of one \<^verbatim>\<open>send_recv_grads\<close> (which
  receives into the fresh storage \<open>a\<close>), and the events of the two halves of
  \<^verbatim>\<open>run_step_allreduce\<close> given the results \<open>ycs\<close> of the forward passes.
\<close>

definition params_exchange :: "master \<Rightarrow> bool \<Rightarrow> ('x, 'y) event list" where
  "params_exchange self oi =
     CudaSynchronize #
       (if local_rank self < (if 0 \<le> mp_size self then mp_size self div 2
                               else - ((- mp_size self) div 2))
        then [Isend (if oi then flat_params_model2 self else flat_params_model1 self) (partner_rank self) 0,
              Irecv (if oi then flat_params_model1 self else flat_params_model2 self) (partner_rank self) 0,
              Wait (SendReq (if oi then flat_params_model2 self else flat_params_model1 self)
                      (partner_rank self) 0),
              Wait (RecvReq (if oi then flat_params_model1 self else flat_params_model2 self)
                      (partner_rank self) 0)]
        else [Irecv (if oi then flat_params_model1 self else flat_params_model2 self) (partner_rank self) 0,
              Isend (if oi then flat_params_model2 self else flat_params_model1 self) (partner_rank self) 0,
              Wait (RecvReq (if oi then flat_params_model1 self else flat_params_model2 self)
                      (partner_rank self) 0),
              Wait (SendReq (if oi then flat_params_model2 self else flat_params_model1 self)
                      (partner_rank self) 0)])"

definition grads_exchange :: "master \<Rightarrow> bool \<Rightarrow> addr \<Rightarrow> ('x, 'y) event list" where
  "grads_exchange self oi a =
     [CudaSynchronize,
      Isend (if oi then flat_grads_model2 self else flat_grads_model1 self) (partner_rank self) 0,
      Irecv \<lparr>storage = a, offset = 0,
              shape = [if oi then model1_size self else model2_size self],
              requires_grad = False\<rparr> (partner_rank self) 0,
      Wait (SendReq (if oi then flat_grads_model2 self else flat_grads_model1 self)
              (partner_rank self) 0),
      Wait (RecvReq \<lparr>storage = a, offset = 0,
              shape = [if oi then model1_size self else model2_size self],
              requires_grad = False\<rparr> (partner_rank self) 0)]"

definition backward_events :: "replica \<Rightarrow> ('y \<times> 'y) list \<Rightarrow> nat \<Rightarrow> ('x, 'y) event list" where
  "backward_events tm ycs n = map (\<lambda>i. BackwardPass tm (map fst ycs ! i) i) [0..<n]"

definition first_part_events ::
  "master \<Rightarrow> replica \<Rightarrow> bool \<Rightarrow> 'x list \<Rightarrow> 'x list \<Rightarrow> nat \<Rightarrow> ('y \<times> 'y) list \<Rightarrow> ('x, 'y) event list" where
  "first_part_events self tm1 oi dx dy ps ycs =
     (if tm_local_rank (tm_of self tm1) = mp_size self - 1
      then [Irecv (if oi then flat_params_model1 self else flat_params_model2 self)
              (mp_size self - 1 - local_rank self) 0,
            Wait (RecvReq (if oi then flat_params_model1 self else flat_params_model2 self)
              (mp_size self - 1 - local_rank self) 0)]
           @ forward_events tm1 dx dy ps [0..<parts self] ycs
           @ backward_events tm1 ycs (parts self)
           @ [Isend (if oi then flat_params_model2 self else flat_params_model1 self)
                (mp_size self - 1 - local_rank self) 0,
              Wait (SendReq (if oi then flat_params_model2 self else flat_params_model1 self)
                (mp_size self - 1 - local_rank self) 0)]
      else forward_events tm1 dx dy ps [0..<parts self] ycs
           @ params_exchange self oi
           @ backward_events tm1 ycs (parts self))"

definition second_part_events ::
  "master \<Rightarrow> replica \<Rightarrow> bool \<Rightarrow> addr \<Rightarrow> 'x list \<Rightarrow> 'x list \<Rightarrow> nat \<Rightarrow> ('y \<times> 'y) list \<Rightarrow>
     ('x, 'y) event list" where
  "second_part_events self tm2 oi a dx dy ps ycs =
     (if tm_local_rank (tm_of self tm2) = mp_size self - 1
      then [Irecv \<lparr>storage = a, offset = 0,
                    shape = [if oi then model1_size self else model2_size self],
                    requires_grad = False\<rparr> (mp_size self - 1 - local_rank self) 0,
            Wait (RecvReq \<lparr>storage = a, offset = 0,
                    shape = [if oi then model1_size self else model2_size self],
                    requires_grad = False\<rparr> (mp_size self - 1 - local_rank self) 0)]
           @ forward_events tm2 dx dy ps [0..<parts self] ycs
           @ backward_events tm2 ycs (parts self)
           @ [Isend (if oi then flat_grads_model2 self else flat_grads_model1 self)
                (mp_size self - 1 - local_rank self) 0,
              Wait (SendReq (if oi then flat_grads_model2 self else flat_grads_model1 self)
                (mp_size self - 1 - local_rank self) 0)]
      else forward_events tm2 dx dy ps [0..<parts self] ycs
           @ grads_exchange self oi a
           @ backward_events tm2 ycs (parts self))"

text \<open>
  An executor whose forward pass returns the sum and the number of the samples it is
  given, on a batch of sixteen samples.
\<close>

definition example_executor :: "(nat, real) executor" where
  "example_executor =
     \<lparr>forward_pass = (\<lambda>tm dx dy i h. ((real (sum_list dx), real (length dx)), h)),
       backward_pass = (\<lambda>tm y i h. h),
       item = (\<lambda>y. y)\<rparr>"

definition example_batch :: "nat list" where
  "example_batch = [1, 2, 3, 4, 5, 6, 7, 8, 9, 10, 11, 12, 13, 14, 15, 16]"

section \<open>Properties of the partition validator\<close>

lemma int_truediv_two:
  "int_truediv m 2 = Inr (if 0 \<le> m then m div 2 else - ((- m) div 2))"
  by (auto simp: int_truediv_def sgn_if)

text \<open>
  C1. \<^verbatim>\<open>verify_spatial_master_config\<close> runs the generic validator first and then
  asserts \<open>mp_size \<ge> 2 * num_spatial_parts_list[0]\<close>: a configuration that passes has
  passed the generic validator and satisfies the inequality; a failure of the generic
  validator is raised as it is; and for every \<open>k\<close>, the call with \<open>mp_size = 2 * k - 1\<close>
  and \<open>num_spatial_parts_list[0] = k\<close> never passes: it raises the assertion failure when
  the generic validator passes, hence always when the generic validator itself fails only
  by assertion.
\<close>

theorem verify_spatial_master_config_guard:
  "(verify_spatial_master_config v sm img l ss mp = Inr () \<longrightarrow>
      v sm img l = Inr () \<and> l \<noteq> [] \<and> mp \<ge> 2 * hd l)
   \<and> (\<forall>e. v sm img (k # rest) = Inl e \<longrightarrow>
         verify_spatial_master_config v sm img (k # rest) ss (2 * k - 1) = Inl e)
   \<and> (v sm img (k # rest) = Inr () \<longrightarrow>
         verify_spatial_master_config v sm img (k # rest) ss (2 * k - 1) = Inl AssertionError)
   \<and> ((\<forall>a b c. v a b c = Inr () \<or> v a b c = Inl AssertionError) \<longrightarrow>
         verify_spatial_master_config v sm img (k # rest) ss (2 * k - 1) = Inl AssertionError)
   \<and> verify_spatial_master_config v sm img (k # rest) ss (2 * k - 1) \<noteq> Inr ()"
proof -
  have pass: "verify_spatial_master_config v sm img l ss mp = Inr () \<longrightarrow>
      v sm img l = Inr () \<and> l \<noteq> [] \<and> mp \<ge> 2 * hd l"
    by (auto simp: verify_spatial_master_config_def split: list.splits sum.splits if_splits)
  have delegate: "\<forall>e. v sm img (k # rest) = Inl e \<longrightarrow>
         verify_spatial_master_config v sm img (k # rest) ss (2 * k - 1) = Inl e"
    by (simp add: verify_spatial_master_config_def)
  have reject: "v sm img (k # rest) = Inr () \<longrightarrow>
         verify_spatial_master_config v sm img (k # rest) ss (2 * k - 1) = Inl AssertionError"
    by (simp add: verify_spatial_master_config_def)
  have only_assert: "(\<forall>a b c. v a b c = Inr () \<or> v a b c = Inl AssertionError) \<longrightarrow>
         verify_spatial_master_config v sm img (k # rest) ss (2 * k - 1) = Inl AssertionError"
  proof
    assume "\<forall>a b c. v a b c = Inr () \<or> v a b c = Inl AssertionError"
    then have "v sm img (k # rest) = Inr () \<or> v sm img (k # rest) = Inl AssertionError"
      by blast
    then show "verify_spatial_master_config v sm img (k # rest) ss (2 * k - 1) = Inl AssertionError"
      using delegate reject by auto
  qed
  have never: "verify_spatial_master_config v sm img (k # rest) ss (2 * k - 1) \<noteq> Inr ()"
    by (simp add: verify_spatial_master_config_def split: sum.splits)
  from pass delegate reject only_assert never show ?thesis by blast
qed

theorem verify_spatial_master_config_guard_witness:
  "verify_spatial_master_config (\<lambda>_ _ _. Inr ()) ''square'' 1024 [4, 4] 1 8 = Inr ()
   \<and> (8::int) \<ge> 2 * hd [4, 4]
   \<and> verify_spatial_master_config (\<lambda>_ _ _. Inr ()) ''square'' 1024 [4, 4] 1 7 = Inl AssertionError
   \<and> verify_spatial_master_config (\<lambda>s i l. if s = ''square'' then Inr () else Inl AssertionError)
        ''diagonal'' 1024 [4, 4] 1 7 = Inl AssertionError"
proof -
  have p: "verify_spatial_master_config (\<lambda>_ _ _. Inr ()) ''square'' 1024 [4, 4] 1 8 = Inr ()"
    by (simp add: verify_spatial_master_config_def)
  have a: "\<forall>a b c. (\<lambda>s (i::int) (l::int list). if s = ''square'' then Inr () else Inl AssertionError) a b c = Inr ()
            \<or> (\<lambda>s (i::int) (l::int list). if s = ''square'' then Inr () else Inl AssertionError) a b c = Inl AssertionError"
    by simp
  show ?thesis
    using p a
      verify_spatial_master_config_guard [of "\<lambda>_ _ _. Inr ()" "''square''" 1024 "[4, 4]" 1 8 4 "[4]"]
      verify_spatial_master_config_guard [of "\<lambda>s i l. if s = ''square'' then Inr () else Inl AssertionError"
         "''diagonal''" 1024 "[4, 4]" 1 8 4 "[4]"]
    by simp
qed

section \<open>Properties of the exchange protocol\<close>

lemmas act_defs = then_m_def pure_m_def lift_m_def log_def cuda_synchronize_def
  dist_isend_def dist_irecv_def

text \<open>
  C2, as amended. The send operation takes \<open>flat_params_model2\<close> when
  \<open>odd_iteration\<close> is true and \<open>flat_params_model1\<close> otherwise; the receive operation
  takes the opposite buffer, \<open>flat_params_model1\<close> when \<open>odd_iteration\<close> is true
  and \<open>flat_params_model2\<close> otherwise. Each issues one non-blocking operation with tag 0
  and returns its handle.
\<close>

theorem params_model_parity:
  "send_params_model self r oi w =
     Inr (SendReq (if oi then flat_params_model2 self else flat_params_model1 self) r 0,
          w\<lparr>trace := trace w @ [Isend (if oi then flat_params_model2 self else flat_params_model1 self) r 0]\<rparr>)
   \<and> recv_params_model self r oi w =
     Inr (RecvReq (if oi then flat_params_model1 self else flat_params_model2 self) r 0,
          w\<lparr>trace := trace w @ [Irecv (if oi then flat_params_model1 self else flat_params_model2 self) r 0]\<rparr>)"
  by (simp add: send_params_model_def recv_params_model_def act_defs)

text \<open>
  The receive operation does not select by the send operation's parity: on an odd
  iteration it does not receive into \<open>flat_params_model2\<close>, and on an even one not into
  \<open>flat_params_model1\<close>.
\<close>

theorem recv_params_model_parity_counterexample:
  "recv_params_model (example_self 8 1) 6 True example_world
     \<noteq> dist_irecv (flat_params_model2 (example_self 8 1)) 6 0 example_world
   \<and> recv_params_model (example_self 8 1) 6 False example_world
     \<noteq> dist_irecv (flat_params_model1 (example_self 8 1)) 6 0 example_world"
  by (simp add: recv_params_model_def example_self_def act_defs)

lemma send_recv_params_unfold:
  "send_recv_params self oi w =
     (case inbox w of
        [] \<Rightarrow> Inl Blocked
      | m # ms \<Rightarrow>
          if length m = numel (if oi then flat_params_model1 self else flat_params_model2 self)
          then Inr ((), w\<lparr>heap := write_tensor (heap w)
                              (if oi then flat_params_model1 self else flat_params_model2 self) m,
                          inbox := ms,
                          trace := trace w @ CudaSynchronize #
                            (if local_rank self < (if 0 \<le> mp_size self then mp_size self div 2
                                                    else - ((- mp_size self) div 2))
                             then [Isend (if oi then flat_params_model2 self else flat_params_model1 self)
                                     (mp_size self - 1 - comm_local_rank (mpi_comm_first self)) 0,
                                   Irecv (if oi then flat_params_model1 self else flat_params_model2 self)
                                     (mp_size self - 1 - comm_local_rank (mpi_comm_first self)) 0,
                                   Wait (SendReq (if oi then flat_params_model2 self else flat_params_model1 self)
                                     (mp_size self - 1 - comm_local_rank (mpi_comm_first self)) 0),
                                   Wait (RecvReq (if oi then flat_params_model1 self else flat_params_model2 self)
                                     (mp_size self - 1 - comm_local_rank (mpi_comm_first self)) 0)]
                             else [Irecv (if oi then flat_params_model1 self else flat_params_model2 self)
                                     (mp_size self - 1 - comm_local_rank (mpi_comm_first self)) 0,
                                   Isend (if oi then flat_params_model2 self else flat_params_model1 self)
                                     (mp_size self - 1 - comm_local_rank (mpi_comm_first self)) 0,
                                   Wait (RecvReq (if oi then flat_params_model1 self else flat_params_model2 self)
                                     (mp_size self - 1 - comm_local_rank (mpi_comm_first self)) 0),
                                   Wait (SendReq (if oi then flat_params_model2 self else flat_params_model1 self)
                                     (mp_size self - 1 - comm_local_rank (mpi_comm_first self)) 0)])\<rparr>)
          else Inl RuntimeError)"
  by (cases oi; cases "inbox w")
     (simp_all add: send_recv_params_def int_truediv_two send_params_model_def recv_params_model_def
       act_defs wait_def Let_def)

lemma send_recv_grads_unfold:
  "send_recv_grads self oi w =
     (case inbox w of
        [] \<Rightarrow> Inl Blocked
      | m # ms \<Rightarrow>
          if length m = (if oi then model1_size self else model2_size self)
          then tensor_iadd (if oi then flat_grads_model1 self else flat_grads_model2 self)
                 \<lparr>storage = next_addr w, offset = 0,
                   shape = [if oi then model1_size self else model2_size self], requires_grad = False\<rparr>
                 (w\<lparr>next_addr := Suc (next_addr w),
                    heap := (heap w)(next_addr w := m),
                    inbox := ms,
                    trace := trace w @
                      [CudaSynchronize,
                       Isend (if oi then flat_grads_model2 self else flat_grads_model1 self)
                         (partner_rank self) 0,
                       Irecv \<lparr>storage = next_addr w, offset = 0,
                               shape = [if oi then model1_size self else model2_size self],
                               requires_grad = False\<rparr> (partner_rank self) 0,
                       Wait (SendReq (if oi then flat_grads_model2 self else flat_grads_model1 self)
                         (partner_rank self) 0),
                       Wait (RecvReq \<lparr>storage = next_addr w, offset = 0,
                               shape = [if oi then model1_size self else model2_size self],
                               requires_grad = False\<rparr> (partner_rank self) 0)]\<rparr>)
          else Inl RuntimeError)"
  by (cases oi; cases "inbox w")
     (simp_all add: send_recv_grads_def int_truediv_two send_grads_model_def recv_grads_model_def
       act_defs wait_def torch_zeros_def Let_def numel_def write_tensor_def)

lemma tensor_iadd_trace:
  "tensor_iadd a b w = Inr ((), w') \<Longrightarrow>
     trace w' = trace w \<and> inbox w' = inbox w \<and> next_addr w' = next_addr w"
  by (auto simp: tensor_iadd_def split: list.splits if_splits)

text \<open>
  C6. In \<^verbatim>\<open>send_recv_grads\<close> every rank, whatever its half of the group, issues the
  gradient send and then the gradient receive, both before either wait.
\<close>

theorem send_recv_grads_order:
  "send_recv_grads self oi w = Inr ((), w') \<longrightarrow>
     trace w' = trace w @
       [CudaSynchronize,
        Isend (if oi then flat_grads_model2 self else flat_grads_model1 self) (partner_rank self) 0,
        Irecv \<lparr>storage = next_addr w, offset = 0,
                shape = [if oi then model1_size self else model2_size self],
                requires_grad = False\<rparr> (partner_rank self) 0,
        Wait (SendReq (if oi then flat_grads_model2 self else flat_grads_model1 self)
                (partner_rank self) 0),
        Wait (RecvReq \<lparr>storage = next_addr w, offset = 0,
                shape = [if oi then model1_size self else model2_size self],
                requires_grad = False\<rparr> (partner_rank self) 0)]"
  unfolding send_recv_grads_unfold
  by (cases "inbox w") (auto split: if_splits dest!: tensor_iadd_trace)


lemma send_recv_grads_heap:
  assumes L: "flat_buffer L n False w" and len: "length m = n"
  shows "tensor_iadd L \<lparr>storage = next_addr w, offset = 0, shape = [n], requires_grad = False\<rparr>
           (w\<lparr>next_addr := Suc (next_addr w), heap := (heap w)(next_addr w := m),
              inbox := ms, trace := tr\<rparr>)
         = Inr ((), w\<lparr>next_addr := Suc (next_addr w),
                       heap := (heap w)(next_addr w := m, storage L := map2 (+) (heap w (storage L)) m),
                       inbox := ms, trace := tr\<rparr>)"
  using assms
  by (simp add: tensor_iadd_def flat_buffer_def read_tensor_def write_tensor_def numel_def)


text \<open>
  C5, as amended. In \<^verbatim>\<open>send_recv_params\<close>, with \<open>half = int(mp_size / 2)\<close>, the
  quotient truncated: a rank with \<open>local_rank < half\<close> issues the send and then the
  receive, a rank with \<open>local_rank \<ge> half\<close> the receive and then the send; both name
  the partner rank \<open>mp_size - 1 - local_rank\<close>; both are issued before either wait; the
  call returns only after both waits, and does not return when no message arrives. For an
  even \<open>mp_size\<close>, \<open>local_rank < half\<close> is \<open>local_rank < mp_size / 2\<close> exactly; for
  an odd one the middle rank, which is its own partner, receives first.
\<close>

theorem send_recv_params_order:
  "int_truediv (mp_size self) 2 = Inr half \<longrightarrow>
   (inbox w = [] \<longrightarrow> send_recv_params self oi w = Inl Blocked)
   \<and> (send_recv_params self oi w = Inr ((), w') \<longrightarrow>
        (local_rank self < half \<longrightarrow>
           trace w' = trace w @
             [CudaSynchronize,
              Isend (if oi then flat_params_model2 self else flat_params_model1 self) (partner_rank self) 0,
              Irecv (if oi then flat_params_model1 self else flat_params_model2 self) (partner_rank self) 0,
              Wait (SendReq (if oi then flat_params_model2 self else flat_params_model1 self)
                      (partner_rank self) 0),
              Wait (RecvReq (if oi then flat_params_model1 self else flat_params_model2 self)
                      (partner_rank self) 0)])
        \<and> (local_rank self \<ge> half \<longrightarrow>
           trace w' = trace w @
             [CudaSynchronize,
              Irecv (if oi then flat_params_model1 self else flat_params_model2 self) (partner_rank self) 0,
              Isend (if oi then flat_params_model2 self else flat_params_model1 self) (partner_rank self) 0,
              Wait (RecvReq (if oi then flat_params_model1 self else flat_params_model2 self)
                      (partner_rank self) 0),
              Wait (SendReq (if oi then flat_params_model2 self else flat_params_model1 self)
                      (partner_rank self) 0)]))
   \<and> (even (mp_size self) \<longrightarrow>
        (local_rank self < half \<longleftrightarrow> real_of_int (local_rank self) < real_of_int (mp_size self) / 2))"
  (is "_ \<longrightarrow> ?blocked \<and> ?order \<and> ?exact")
proof
  assume h: "int_truediv (mp_size self) 2 = Inr half"
  then have half: "half = (if 0 \<le> mp_size self then mp_size self div 2 else - ((- mp_size self) div 2))"
    by (simp add: int_truediv_two)
  have blocked: ?blocked
    by (simp add: send_recv_params_unfold)
  have order: ?order
    unfolding send_recv_params_unfold half
    by (cases "inbox w") (auto split: if_splits)
  have exact: ?exact
  proof
    assume "even (mp_size self)"
    then obtain k where k: "mp_size self = 2 * k" by (auto elim: evenE)
    then have "half = k" using half by auto
    then show "local_rank self < half \<longleftrightarrow> real_of_int (local_rank self) < real_of_int (mp_size self) / 2"
      using k by simp
  qed
  from blocked order exact show "?blocked \<and> ?order \<and> ?exact" by blast
qed

lemma example_allocated: "buffers_allocated (example_self mp r) example_inbox_world"
  by (simp add: buffers_allocated_def flat_buffer_def example_self_def example_inbox_world_def)

lemma example_fields:
  "mp_size (example_self mp r) = mp" "local_rank (example_self mp r) = r"
  "comm_local_rank (mpi_comm_first (example_self mp r)) = r"
  "model1_size (example_self mp r) = 17" "model2_size (example_self mp r) = 17"
  "flat_params_model1 (example_self mp r) = \<lparr>storage = 4, offset = 0, shape = [17], requires_grad = True\<rparr>"
  "flat_params_model2 (example_self mp r) = \<lparr>storage = 5, offset = 0, shape = [17], requires_grad = True\<rparr>"
  "flat_grads_model1 (example_self mp r) = \<lparr>storage = 6, offset = 0, shape = [17], requires_grad = False\<rparr>"
  "flat_grads_model2 (example_self mp r) = \<lparr>storage = 7, offset = 0, shape = [17], requires_grad = False\<rparr>"
  by (simp_all add: example_self_def)

lemma example_inbox_fields:
  "inbox example_inbox_world = [replicate 17 2, replicate 17 0]"
  "trace example_inbox_world = []" "next_addr example_inbox_world = 8"
  by (simp_all add: example_inbox_world_def)

theorem send_recv_params_order_witness:
  "(\<exists>w'. send_recv_params (example_self 8 1) False example_inbox_world = Inr ((), w')
      \<and> trace w' =
         [CudaSynchronize,
          Isend \<lparr>storage = 4, offset = 0, shape = [17], requires_grad = True\<rparr> 6 0,
          Irecv \<lparr>storage = 5, offset = 0, shape = [17], requires_grad = True\<rparr> 6 0,
          Wait (SendReq \<lparr>storage = 4, offset = 0, shape = [17], requires_grad = True\<rparr> 6 0),
          Wait (RecvReq \<lparr>storage = 5, offset = 0, shape = [17], requires_grad = True\<rparr> 6 0)])
   \<and> (\<exists>w'. send_recv_params (example_self 8 6) False example_inbox_world = Inr ((), w')
      \<and> trace w' =
         [CudaSynchronize,
          Irecv \<lparr>storage = 5, offset = 0, shape = [17], requires_grad = True\<rparr> 1 0,
          Isend \<lparr>storage = 4, offset = 0, shape = [17], requires_grad = True\<rparr> 1 0,
          Wait (RecvReq \<lparr>storage = 5, offset = 0, shape = [17], requires_grad = True\<rparr> 1 0),
          Wait (SendReq \<lparr>storage = 4, offset = 0, shape = [17], requires_grad = True\<rparr> 1 0)])"
proof -
  have h: "int_truediv (mp_size (example_self 8 r)) 2 = Inr 4" for r
    by (simp add: int_truediv_two example_fields)
  obtain w1 where r1: "send_recv_params (example_self 8 1) False example_inbox_world = Inr ((), w1)"
    by (simp add: send_recv_params_unfold example_fields example_inbox_fields numel_def)
  obtain w6 where r6: "send_recv_params (example_self 8 6) False example_inbox_world = Inr ((), w6)"
    by (simp add: send_recv_params_unfold example_fields example_inbox_fields numel_def)
  have t1: "trace w1 =
         [CudaSynchronize,
          Isend \<lparr>storage = 4, offset = 0, shape = [17], requires_grad = True\<rparr> 6 0,
          Irecv \<lparr>storage = 5, offset = 0, shape = [17], requires_grad = True\<rparr> 6 0,
          Wait (SendReq \<lparr>storage = 4, offset = 0, shape = [17], requires_grad = True\<rparr> 6 0),
          Wait (RecvReq \<lparr>storage = 5, offset = 0, shape = [17], requires_grad = True\<rparr> 6 0)]"
    using send_recv_params_order [of "example_self 8 1" 4 example_inbox_world False w1] h r1
    by (simp add: example_fields example_inbox_fields)
  have t6: "trace w6 =
         [CudaSynchronize,
          Irecv \<lparr>storage = 5, offset = 0, shape = [17], requires_grad = True\<rparr> 1 0,
          Isend \<lparr>storage = 4, offset = 0, shape = [17], requires_grad = True\<rparr> 1 0,
          Wait (RecvReq \<lparr>storage = 5, offset = 0, shape = [17], requires_grad = True\<rparr> 1 0),
          Wait (SendReq \<lparr>storage = 4, offset = 0, shape = [17], requires_grad = True\<rparr> 1 0)]"
    using send_recv_params_order [of "example_self 8 6" 4 example_inbox_world False w6] h r6
    by (simp add: example_fields example_inbox_fields)
  from r1 t1 r6 t6 show ?thesis by blast
qed

text \<open>
  With the exact half the split fails on an odd group: rank 4 of 9 has
  \<open>local_rank < mp_size / 2\<close> (4 < 4.5) and yet issues its receive before its send,
  since \<open>int(9 / 2) = 4\<close>.
\<close>

theorem send_recv_params_order_counterexample:
  "real_of_int (local_rank (example_self 9 4)) < real_of_int (mp_size (example_self 9 4)) / 2
   \<and> send_recv_params (example_self 9 4) False example_inbox_world =
       Inr ((), example_inbox_world
          \<lparr>heap := write_tensor (heap example_inbox_world)
                     (flat_params_model2 (example_self 9 4)) (replicate 17 2),
            inbox := [replicate 17 0],
            trace :=
              [CudaSynchronize,
               Irecv (flat_params_model2 (example_self 9 4)) 4 0,
               Isend (flat_params_model1 (example_self 9 4)) 4 0,
               Wait (RecvReq (flat_params_model2 (example_self 9 4)) 4 0),
               Wait (SendReq (flat_params_model1 (example_self 9 4)) 4 0)]\<rparr>)"
  by (simp add: send_recv_params_unfold example_fields example_inbox_fields numel_def)

theorem send_recv_grads_order_witness:
  "(\<exists>w'. send_recv_grads (example_self 8 1) False example_inbox_world = Inr ((), w')
      \<and> trace w' =
         [CudaSynchronize,
          Isend \<lparr>storage = 6, offset = 0, shape = [17], requires_grad = False\<rparr> 6 0,
          Irecv \<lparr>storage = 8, offset = 0, shape = [17], requires_grad = False\<rparr> 6 0,
          Wait (SendReq \<lparr>storage = 6, offset = 0, shape = [17], requires_grad = False\<rparr> 6 0),
          Wait (RecvReq \<lparr>storage = 8, offset = 0, shape = [17], requires_grad = False\<rparr> 6 0)])
   \<and> (\<exists>w'. send_recv_grads (example_self 8 6) False example_inbox_world = Inr ((), w')
      \<and> trace w' =
         [CudaSynchronize,
          Isend \<lparr>storage = 6, offset = 0, shape = [17], requires_grad = False\<rparr> 1 0,
          Irecv \<lparr>storage = 8, offset = 0, shape = [17], requires_grad = False\<rparr> 1 0,
          Wait (SendReq \<lparr>storage = 6, offset = 0, shape = [17], requires_grad = False\<rparr> 1 0),
          Wait (RecvReq \<lparr>storage = 8, offset = 0, shape = [17], requires_grad = False\<rparr> 1 0)])"
proof -
  have run: "\<exists>w'. send_recv_grads (example_self 8 r) False example_inbox_world = Inr ((), w')" for r
    unfolding send_recv_grads_unfold
    using send_recv_grads_heap [of "flat_grads_model2 (example_self 8 r)" 17 example_inbox_world "replicate 17 2"]
      example_allocated [of 8 r]
    by (simp add: example_fields example_inbox_fields buffers_allocated_def)
  obtain w1 where r1: "send_recv_grads (example_self 8 1) False example_inbox_world = Inr ((), w1)"
    using run by blast
  obtain w6 where r6: "send_recv_grads (example_self 8 6) False example_inbox_world = Inr ((), w6)"
    using run by blast
  have t1: "trace w1 =
         [CudaSynchronize,
          Isend \<lparr>storage = 6, offset = 0, shape = [17], requires_grad = False\<rparr> 6 0,
          Irecv \<lparr>storage = 8, offset = 0, shape = [17], requires_grad = False\<rparr> 6 0,
          Wait (SendReq \<lparr>storage = 6, offset = 0, shape = [17], requires_grad = False\<rparr> 6 0),
          Wait (RecvReq \<lparr>storage = 8, offset = 0, shape = [17], requires_grad = False\<rparr> 6 0)]"
    using send_recv_grads_order [of "example_self 8 1" False example_inbox_world w1] r1
    by (simp add: example_fields example_inbox_fields)
  have t6: "trace w6 =
         [CudaSynchronize,
          Isend \<lparr>storage = 6, offset = 0, shape = [17], requires_grad = False\<rparr> 1 0,
          Irecv \<lparr>storage = 8, offset = 0, shape = [17], requires_grad = False\<rparr> 1 0,
          Wait (SendReq \<lparr>storage = 6, offset = 0, shape = [17], requires_grad = False\<rparr> 1 0),
          Wait (RecvReq \<lparr>storage = 8, offset = 0, shape = [17], requires_grad = False\<rparr> 1 0)]"
    using send_recv_grads_order [of "example_self 8 6" False example_inbox_world w6] r6
    by (simp add: example_fields example_inbox_fields)
  from r1 t1 r6 t6 show ?thesis by blast
qed


section \<open>Properties of the flat buffer manager\<close>

lemma slice_start_0 [simp]: "slice_start ps 0 = 0"
  by (simp add: slice_start_def)

lemma slice_start_Cons_Suc [simp]:
  "slice_start (p # ps) (Suc i) = numel (data p) + slice_start ps i"
  by (simp add: slice_start_def)

lemma slice_start_Suc:
  "i < length ps \<Longrightarrow> slice_start ps (Suc i) = slice_start ps i + numel (data (ps ! i))"
  by (simp add: slice_start_def take_Suc_conv_app_nth)

lemma slice_start_length:
  "slice_start ps (length ps) = sum_list (map (\<lambda>p. numel (data p)) ps)"
  by (simp add: slice_start_def)

lemma slice_start_mono: "i \<le> j \<Longrightarrow> slice_start ps i \<le> slice_start ps j"
proof (induction j)
  case 0 then show ?case by simp
next
  case (Suc j)
  show ?case
  proof (cases "i = Suc j")
    case True then show ?thesis by simp
  next
    case False
    with Suc have le: "slice_start ps i \<le> slice_start ps j" by simp
    show ?thesis
    proof (cases "j < length ps")
      case True
      with le show ?thesis by (simp add: slice_start_Suc)
    next
      case False
      then show ?thesis using le by (simp add: slice_start_def)
    qed
  qed
qed

lemma get_model_parameter_size_sum:
  "get_model_parameter_size mg = sum_list (map (\<lambda>p. numel (data p)) (models mg))"
proof -
  have "foldl (\<lambda>size p. size + numel (data p)) a ps = a + sum_list (map (\<lambda>p. numel (data p)) ps)"
    for a and ps :: "param list"
    by (induction ps arbitrary: a) simp_all
  then show ?thesis by (simp add: get_model_parameter_size_def)
qed

lemma slice_view:
  assumes "shape flat = [n]" "k + numel (data p) \<le> n"
  shows "slice_tensor flat k (k + numel (data p)) = Inr (flat\<lparr>offset := offset flat + k, shape := [numel (data p)]\<rparr>)"
    and "view (flat\<lparr>offset := offset flat + k, shape := [numel (data p)]\<rparr>) (shape (data p))
           = Inr (flat\<lparr>offset := offset flat + k, shape := shape (data p)\<rparr>)"
  using assms by (simp_all add: slice_tensor_def view_def numel_def min_def)

lemma params_loc_loop_result:
  assumes "shape flat = [n]" "k + sum_list (map (\<lambda>p. numel (data p)) ps) \<le> n"
  shows "\<exists>ps'. params_loc_loop flat k ps = Inr ps' \<and> length ps' = length ps \<and>
           (\<forall>i<length ps. ps' ! i = set_data (ps ! i)
               (flat\<lparr>offset := offset flat + k + slice_start ps i, shape := shape (data (ps ! i))\<rparr>))"
  using assms
proof (induction ps arbitrary: k)
  case Nil
  then show ?case by simp
next
  case (Cons p ps)
  have le: "k + numel (data p) \<le> n" using Cons.prems by simp
  have "k + numel (data p) + sum_list (map (\<lambda>p. numel (data p)) ps) \<le> n"
    using Cons.prems by simp
  from Cons.IH [OF Cons.prems(1) this]
  obtain ps' where ps': "params_loc_loop flat (k + numel (data p)) ps = Inr ps'"
      "length ps' = length ps"
      "\<forall>i<length ps. ps' ! i = set_data (ps ! i)
         (flat\<lparr>offset := offset flat + (k + numel (data p)) + slice_start ps i,
               shape := shape (data (ps ! i))\<rparr>)"
    by blast
  have run: "params_loc_loop flat k (p # ps)
      = Inr (set_data p (flat\<lparr>offset := offset flat + k, shape := shape (data p)\<rparr>) # ps')"
    using slice_view [OF Cons.prems(1) le] ps'(1) by (simp add: Let_def)
  have nth: "(set_data p (flat\<lparr>offset := offset flat + k, shape := shape (data p)\<rparr>) # ps') ! i
      = set_data ((p # ps) ! i)
          (flat\<lparr>offset := offset flat + k + slice_start (p # ps) i, shape := shape (data ((p # ps) ! i))\<rparr>)"
    if "i < length (p # ps)" for i
  proof (cases i)
    case 0
    then show ?thesis by simp
  next
    case (Suc j)
    with that have "j < length ps" by simp
    with ps'(3) Suc show ?thesis by (simp add: add.assoc)
  qed
  from run ps'(2) nth show ?case by simp
qed

lemma grads_loc_loop_result:
  assumes "shape flat = [n]" "k + sum_list (map (\<lambda>p. numel (data p)) ps) \<le> n"
  shows "\<exists>ps'. grads_loc_loop flat k ps = Inr ps' \<and> length ps' = length ps \<and>
           (\<forall>i<length ps. ps' ! i = (ps ! i)\<lparr>grad := Some
               (flat\<lparr>offset := offset flat + k + slice_start ps i, shape := shape (data (ps ! i))\<rparr>)\<rparr>)"
  using assms
proof (induction ps arbitrary: k)
  case Nil
  then show ?case by simp
next
  case (Cons p ps)
  have le: "k + numel (data p) \<le> n" using Cons.prems by simp
  have "k + numel (data p) + sum_list (map (\<lambda>p. numel (data p)) ps) \<le> n"
    using Cons.prems by simp
  from Cons.IH [OF Cons.prems(1) this]
  obtain ps' where ps': "grads_loc_loop flat (k + numel (data p)) ps = Inr ps'"
      "length ps' = length ps"
      "\<forall>i<length ps. ps' ! i = (ps ! i)\<lparr>grad := Some
         (flat\<lparr>offset := offset flat + (k + numel (data p)) + slice_start ps i,
               shape := shape (data (ps ! i))\<rparr>)\<rparr>"
    by blast
  have run: "grads_loc_loop flat k (p # ps)
      = Inr (p\<lparr>grad := Some (flat\<lparr>offset := offset flat + k, shape := shape (data p)\<rparr>)\<rparr> # ps')"
    using slice_view [OF Cons.prems(1) le] ps'(1) by (simp add: Let_def)
  have nth: "(p\<lparr>grad := Some (flat\<lparr>offset := offset flat + k, shape := shape (data p)\<rparr>)\<rparr> # ps') ! i
      = ((p # ps) ! i)\<lparr>grad := Some
          (flat\<lparr>offset := offset flat + k + slice_start (p # ps) i, shape := shape (data ((p # ps) ! i))\<rparr>)\<rparr>"
    if "i < length (p # ps)" for i
  proof (cases i)
    case 0
    then show ?thesis by simp
  next
    case (Suc j)
    with that have "j < length ps" by simp
    with ps'(3) Suc show ?thesis by (simp add: add.assoc)
  qed
  from run ps'(2) nth show ?case by simp
qed

lemma numel_set_data:
  "numel (data (set_data p (t\<lparr>offset := k, shape := shape (data p)\<rparr>))) = numel (data p)"
  by (simp add: set_data_def numel_def)

lemma update_params_then_grads:
  assumes fp: "shape fp = [n]" "offset fp = 0"
    and fg: "shape fg = [n]" "offset fg = 0" "requires_grad fg = False"
    and n: "n = sum_list (map (\<lambda>p. numel (data p)) ps)"
  shows "\<exists>m m'. update_model_params_loc ps fp = Inr m \<and> update_model_grads_loc m fg = Inr m'
           \<and> aliases fp fg ps m'"
proof -
  from params_loc_loop_result [of fp n 0 ps] fp n
  obtain m where m: "update_model_params_loc ps fp = Inr m" "length m = length ps"
      "\<forall>i<length ps. m ! i = set_data (ps ! i)
          (fp\<lparr>offset := slice_start ps i, shape := shape (data (ps ! i))\<rparr>)"
    by (auto simp: update_model_params_loc_def)
  have same: "map (\<lambda>p. numel (data p)) m = map (\<lambda>p. numel (data p)) ps"
    using m(2,3) by (auto intro!: nth_equalityI simp: numel_set_data)
  then have starts: "slice_start m i = slice_start ps i" for i
    by (simp add: slice_start_def take_map [symmetric])
  from same n have "0 + sum_list (map (\<lambda>p. numel (data p)) m) \<le> n" by simp
  from grads_loc_loop_result [OF fg(1) this] m(2)
  obtain m' where m': "update_model_grads_loc m fg = Inr m'" "length m' = length ps"
      "\<forall>i<length ps. m' ! i = (m ! i)\<lparr>grad := Some
          (fg\<lparr>offset := offset fg + 0 + slice_start m i, shape := shape (data (m ! i))\<rparr>)\<rparr>"
    by (auto simp: update_model_grads_loc_def)
  have "aliases fp fg ps m'"
    unfolding aliases_def
  proof (intro conjI allI impI)
    show "length m' = length ps" by (rule m'(2))
  next
    fix i assume i: "i < length ps"
    with m(3) m'(3) show "data (m' ! i) = \<lparr>storage = storage fp, offset = slice_start ps i,
            shape = shape (data (ps ! i)), requires_grad = requires_grad (data (ps ! i))\<rparr>"
      using fp by (simp add: set_data_def)
  next
    fix i assume i: "i < length ps"
    with m(3) m'(3) show "grad (m' ! i) = Some \<lparr>storage = storage fg, offset = slice_start ps i,
            shape = shape (data (ps ! i)), requires_grad = False\<rparr>"
      using fg starts by (simp add: set_data_def)
  qed
  with m(1) m'(1) show ?thesis by blast
qed

lemma init_result:
  "\<exists>m1 m1' m2 m2'.
     update_model_params_loc (models mg1)
       \<lparr>storage = next_addr w, offset = 0, shape = [get_model_parameter_size mg1],
         requires_grad = True\<rparr> = Inr m1
   \<and> update_model_grads_loc m1
       \<lparr>storage = Suc (Suc (next_addr w)), offset = 0, shape = [get_model_parameter_size mg1],
         requires_grad = False\<rparr> = Inr m1'
   \<and> update_model_params_loc (models mg2)
       \<lparr>storage = Suc (next_addr w), offset = 0, shape = [get_model_parameter_size mg2],
         requires_grad = True\<rparr> = Inr m2
   \<and> update_model_grads_loc m2
       \<lparr>storage = Suc (Suc (Suc (next_addr w))), offset = 0, shape = [get_model_parameter_size mg2],
         requires_grad = False\<rparr> = Inr m2'
   \<and> aliases \<lparr>storage = next_addr w, offset = 0, shape = [get_model_parameter_size mg1],
         requires_grad = True\<rparr>
       \<lparr>storage = Suc (Suc (next_addr w)), offset = 0, shape = [get_model_parameter_size mg1],
         requires_grad = False\<rparr> (models mg1) m1'
   \<and> aliases \<lparr>storage = Suc (next_addr w), offset = 0, shape = [get_model_parameter_size mg2],
         requires_grad = True\<rparr>
       \<lparr>storage = Suc (Suc (Suc (next_addr w))), offset = 0, shape = [get_model_parameter_size mg2],
         requires_grad = False\<rparr> (models mg2) m2'
   \<and> init mg1 mg2 bs c1 c2 tm1 tm2 pp as rp w =
       Inr ((\<lparr>mp_size = comm_mp_size c1,
               split_size = gen_split_size mg1,
               local_rank = comm_local_rank c1,
               mpi_comm_first = c1,
               mpi_comm_second = c2,
               model1_size = get_model_parameter_size mg1,
               model2_size = get_model_parameter_size mg2,
               flat_params_model1 = \<lparr>storage = next_addr w, offset = 0,
                  shape = [get_model_parameter_size mg1], requires_grad = True\<rparr>,
               flat_params_model2 = \<lparr>storage = Suc (next_addr w), offset = 0,
                  shape = [get_model_parameter_size mg2], requires_grad = True\<rparr>,
               flat_grads_model1 = \<lparr>storage = Suc (Suc (next_addr w)), offset = 0,
                  shape = [get_model_parameter_size mg1], requires_grad = False\<rparr>,
               flat_grads_model2 = \<lparr>storage = Suc (Suc (Suc (next_addr w))), offset = 0,
                  shape = [get_model_parameter_size mg2], requires_grad = False\<rparr>,
               train_model1 = tm1,
               train_model2 = tm2,
               parts = pp,
               ENABLE_ASYNC = as,
               batch_size = bs,
               replications = rp\<rparr>,
             mg1\<lparr>models := m1'\<rparr>, mg2\<lparr>models := m2'\<rparr>),
            w\<lparr>next_addr := Suc (Suc (Suc (Suc (next_addr w)))),
              heap := (heap w)
                (next_addr w := replicate (get_model_parameter_size mg1) 0,
                 Suc (next_addr w) := replicate (get_model_parameter_size mg2) 0,
                 Suc (Suc (next_addr w)) := replicate (get_model_parameter_size mg1) 0,
                 Suc (Suc (Suc (next_addr w))) := replicate (get_model_parameter_size mg2) 0)\<rparr>)"
proof -
  from update_params_then_grads [of
      "\<lparr>storage = next_addr w, offset = 0, shape = [get_model_parameter_size mg1], requires_grad = True\<rparr>"
      "get_model_parameter_size mg1"
      "\<lparr>storage = Suc (Suc (next_addr w)), offset = 0, shape = [get_model_parameter_size mg1],
         requires_grad = False\<rparr>" "models mg1"]
  obtain m1 m1' where one:
    "update_model_params_loc (models mg1)
       \<lparr>storage = next_addr w, offset = 0, shape = [get_model_parameter_size mg1],
         requires_grad = True\<rparr> = Inr m1"
    "update_model_grads_loc m1
       \<lparr>storage = Suc (Suc (next_addr w)), offset = 0, shape = [get_model_parameter_size mg1],
         requires_grad = False\<rparr> = Inr m1'"
    "aliases \<lparr>storage = next_addr w, offset = 0, shape = [get_model_parameter_size mg1],
         requires_grad = True\<rparr>
       \<lparr>storage = Suc (Suc (next_addr w)), offset = 0, shape = [get_model_parameter_size mg1],
         requires_grad = False\<rparr> (models mg1) m1'"
    by (auto simp: get_model_parameter_size_sum)
  from update_params_then_grads [of
      "\<lparr>storage = Suc (next_addr w), offset = 0, shape = [get_model_parameter_size mg2], requires_grad = True\<rparr>"
      "get_model_parameter_size mg2"
      "\<lparr>storage = Suc (Suc (Suc (next_addr w))), offset = 0, shape = [get_model_parameter_size mg2],
         requires_grad = False\<rparr>" "models mg2"]
  obtain m2 m2' where two:
    "update_model_params_loc (models mg2)
       \<lparr>storage = Suc (next_addr w), offset = 0, shape = [get_model_parameter_size mg2],
         requires_grad = True\<rparr> = Inr m2"
    "update_model_grads_loc m2
       \<lparr>storage = Suc (Suc (Suc (next_addr w))), offset = 0, shape = [get_model_parameter_size mg2],
         requires_grad = False\<rparr> = Inr m2'"
    "aliases \<lparr>storage = Suc (next_addr w), offset = 0, shape = [get_model_parameter_size mg2],
         requires_grad = True\<rparr>
       \<lparr>storage = Suc (Suc (Suc (next_addr w))), offset = 0, shape = [get_model_parameter_size mg2],
         requires_grad = False\<rparr> (models mg2) m2'"
    by (auto simp: get_model_parameter_size_sum)
  have "init mg1 mg2 bs c1 c2 tm1 tm2 pp as rp w =
       Inr ((\<lparr>mp_size = comm_mp_size c1,
               split_size = gen_split_size mg1,
               local_rank = comm_local_rank c1,
               mpi_comm_first = c1,
               mpi_comm_second = c2,
               model1_size = get_model_parameter_size mg1,
               model2_size = get_model_parameter_size mg2,
               flat_params_model1 = \<lparr>storage = next_addr w, offset = 0,
                  shape = [get_model_parameter_size mg1], requires_grad = True\<rparr>,
               flat_params_model2 = \<lparr>storage = Suc (next_addr w), offset = 0,
                  shape = [get_model_parameter_size mg2], requires_grad = True\<rparr>,
               flat_grads_model1 = \<lparr>storage = Suc (Suc (next_addr w)), offset = 0,
                  shape = [get_model_parameter_size mg1], requires_grad = False\<rparr>,
               flat_grads_model2 = \<lparr>storage = Suc (Suc (Suc (next_addr w))), offset = 0,
                  shape = [get_model_parameter_size mg2], requires_grad = False\<rparr>,
               train_model1 = tm1,
               train_model2 = tm2,
               parts = pp,
               ENABLE_ASYNC = as,
               batch_size = bs,
               replications = rp\<rparr>,
             mg1\<lparr>models := m1'\<rparr>, mg2\<lparr>models := m2'\<rparr>),
            w\<lparr>next_addr := Suc (Suc (Suc (Suc (next_addr w)))),
              heap := (heap w)
                (next_addr w := replicate (get_model_parameter_size mg1) 0,
                 Suc (next_addr w) := replicate (get_model_parameter_size mg2) 0,
                 Suc (Suc (next_addr w)) := replicate (get_model_parameter_size mg1) 0,
                 Suc (Suc (Suc (next_addr w))) := replicate (get_model_parameter_size mg2) 0)\<rparr>)"
    using one(1,2) two(1,2)
    by (simp add: init_def Let_def then_m_def pure_m_def lift_m_def torch_zeros_def)
  with one two show ?thesis by blast
qed

lemma union_consecutive:
  fixes f :: "nat \<Rightarrow> nat"
  assumes "\<And>i. i < m \<Longrightarrow> f i \<le> f (Suc i)"
  shows "(\<Union>i<m. {f i..<f (Suc i)}) = {f 0..<f m}"
  using assms
proof (induction m)
  case 0
  then show ?case by simp
next
  case (Suc m)
  have mono: "f 0 \<le> f m"
    using Suc.prems by (induction m) (auto intro: order_trans)
  have "(\<Union>i<Suc m. {f i..<f (Suc i)}) = (\<Union>i<m. {f i..<f (Suc i)}) \<union> {f m..<f (Suc m)}"
    by (simp add: lessThan_Suc Un_commute)
  also have "\<dots> = {f 0..<f m} \<union> {f m..<f (Suc m)}"
    using Suc by simp
  also have "\<dots> = {f 0..<f (Suc m)}"
    using mono Suc.prems [of m] by (simp add: ivl_disj_un)
  finally show ?case .
qed

lemma contiguous_slicesI:
  assumes len: "length ts = length ps"
    and off: "\<And>i. i < length ps \<Longrightarrow> offset (ts ! i) = slice_start ps i"
    and num: "\<And>i. i < length ps \<Longrightarrow> numel (ts ! i) = numel (data (ps ! i))"
  shows "contiguous_slices ts (sum_list (map (\<lambda>p. numel (data p)) ps))"
proof -
  have reg: "region (ts ! i) = {slice_start ps i..<slice_start ps (Suc i)}" if "i < length ps" for i
    using that off num by (simp add: region_def slice_start_Suc)
  have first: "ts \<noteq> [] \<longrightarrow> offset (ts ! 0) = 0"
    using len off [of 0] by (cases ps) auto
  have step: "\<forall>i. Suc i < length ts \<longrightarrow> offset (ts ! Suc i) = offset (ts ! i) + numel (ts ! i)"
    using len off num by (simp add: slice_start_Suc)
  have disj: "\<forall>i j. i < j \<and> j < length ts \<longrightarrow> region (ts ! i) \<inter> region (ts ! j) = {}"
  proof (intro allI impI)
    fix i j assume ij: "i < j \<and> j < length ts"
    then have "slice_start ps (Suc i) \<le> slice_start ps j"
      by (intro slice_start_mono) simp
    with ij len show "region (ts ! i) \<inter> region (ts ! j) = {}"
      by (auto simp: reg)
  qed
  have "(\<Union>i<length ts. region (ts ! i)) = (\<Union>i<length ps. {slice_start ps i..<slice_start ps (Suc i)})"
    using len reg by simp
  also have "\<dots> = {slice_start ps 0..<slice_start ps (length ps)}"
    by (rule union_consecutive) (simp add: slice_start_mono)
  finally have cover: "(\<Union>i<length ts. region (ts ! i)) = {0..<sum_list (map (\<lambda>p. numel (data p)) ps)}"
    by (simp add: slice_start_length)
  from first step disj cover show ?thesis
    unfolding contiguous_slices_def by blast
qed

lemma aliases_contiguous:
  assumes "aliases fp fg ps ps'"
  shows "contiguous_slices (map data ps') (sum_list (map (\<lambda>p. numel (data p)) ps))"
    and "contiguous_slices (map (\<lambda>p. the (grad p)) ps') (sum_list (map (\<lambda>p. numel (data p)) ps))"
proof -
  from assms have len: "length ps' = length ps"
    and d: "\<And>i. i < length ps \<Longrightarrow> data (ps' ! i) =
          \<lparr>storage = storage fp, offset = slice_start ps i, shape = shape (data (ps ! i)),
            requires_grad = requires_grad (data (ps ! i))\<rparr>"
    and g: "\<And>i. i < length ps \<Longrightarrow> grad (ps' ! i) =
          Some \<lparr>storage = storage fg, offset = slice_start ps i, shape = shape (data (ps ! i)),
            requires_grad = False\<rparr>"
    by (simp_all add: aliases_def)
  show "contiguous_slices (map data ps') (sum_list (map (\<lambda>p. numel (data p)) ps))"
    by (rule contiguous_slicesI) (simp_all add: len d numel_def)
  show "contiguous_slices (map (\<lambda>p. the (grad p)) ps') (sum_list (map (\<lambda>p. numel (data p)) ps))"
    by (rule contiguous_slicesI) (simp_all add: len g numel_def)
qed

text \<open>
  C3. For each replica, construction allocates a zero-initialised flat parameter buffer
  with gradient tracking and a zero-initialised flat gradient buffer without it, each a
  one-dimensional tensor as long as the sum of the element counts of the replica's
  parameters; the aliasing pass makes parameter \<open>i\<close>'s data (and gradient) the slice of
  the buffer that starts where the slice of parameter \<open>i - 1\<close> ends, the first at 0, in
  the parameter's original shape; the slices are pairwise disjoint and cover the whole
  buffer. Construction never fails.
\<close>

theorem init_flat_buffers:
  "\<exists>self mg1' mg2' w'.
     init mg1 mg2 bs c1 c2 tm1 tm2 pp as rp w = Inr ((self, mg1', mg2'), w')
   \<and> model1_size self = sum_list (map (\<lambda>p. numel (data p)) (models mg1))
   \<and> model2_size self = sum_list (map (\<lambda>p. numel (data p)) (models mg2))
   \<and> buffers_allocated self w'
   \<and> read_tensor (heap w') (flat_params_model1 self) = replicate (model1_size self) 0
   \<and> read_tensor (heap w') (flat_params_model2 self) = replicate (model2_size self) 0
   \<and> read_tensor (heap w') (flat_grads_model1 self) = replicate (model1_size self) 0
   \<and> read_tensor (heap w') (flat_grads_model2 self) = replicate (model2_size self) 0
   \<and> aliases (flat_params_model1 self) (flat_grads_model1 self) (models mg1) (models mg1')
   \<and> aliases (flat_params_model2 self) (flat_grads_model2 self) (models mg2) (models mg2')
   \<and> contiguous_slices (map data (models mg1')) (model1_size self)
   \<and> contiguous_slices (map (\<lambda>p. the (grad p)) (models mg1')) (model1_size self)
   \<and> contiguous_slices (map data (models mg2')) (model2_size self)
   \<and> contiguous_slices (map (\<lambda>p. the (grad p)) (models mg2')) (model2_size self)"
proof -
  from init_result [of mg1 w mg2 bs c1 c2 tm1 tm2 pp as rp]
  obtain m1' m2' self w' where
    a1: "aliases \<lparr>storage = next_addr w, offset = 0, shape = [get_model_parameter_size mg1],
           requires_grad = True\<rparr>
         \<lparr>storage = Suc (Suc (next_addr w)), offset = 0, shape = [get_model_parameter_size mg1],
           requires_grad = False\<rparr> (models mg1) m1'"
    and a2: "aliases \<lparr>storage = Suc (next_addr w), offset = 0, shape = [get_model_parameter_size mg2],
           requires_grad = True\<rparr>
         \<lparr>storage = Suc (Suc (Suc (next_addr w))), offset = 0, shape = [get_model_parameter_size mg2],
           requires_grad = False\<rparr> (models mg2) m2'"
    and self: "self = \<lparr>mp_size = comm_mp_size c1,
               split_size = gen_split_size mg1,
               local_rank = comm_local_rank c1,
               mpi_comm_first = c1,
               mpi_comm_second = c2,
               model1_size = get_model_parameter_size mg1,
               model2_size = get_model_parameter_size mg2,
               flat_params_model1 = \<lparr>storage = next_addr w, offset = 0,
                  shape = [get_model_parameter_size mg1], requires_grad = True\<rparr>,
               flat_params_model2 = \<lparr>storage = Suc (next_addr w), offset = 0,
                  shape = [get_model_parameter_size mg2], requires_grad = True\<rparr>,
               flat_grads_model1 = \<lparr>storage = Suc (Suc (next_addr w)), offset = 0,
                  shape = [get_model_parameter_size mg1], requires_grad = False\<rparr>,
               flat_grads_model2 = \<lparr>storage = Suc (Suc (Suc (next_addr w))), offset = 0,
                  shape = [get_model_parameter_size mg2], requires_grad = False\<rparr>,
               train_model1 = tm1,
               train_model2 = tm2,
               parts = pp,
               ENABLE_ASYNC = as,
               batch_size = bs,
               replications = rp\<rparr>"
    and w': "w' = w\<lparr>next_addr := Suc (Suc (Suc (Suc (next_addr w)))),
              heap := (heap w)
                (next_addr w := replicate (get_model_parameter_size mg1) 0,
                 Suc (next_addr w) := replicate (get_model_parameter_size mg2) 0,
                 Suc (Suc (next_addr w)) := replicate (get_model_parameter_size mg1) 0,
                 Suc (Suc (Suc (next_addr w))) := replicate (get_model_parameter_size mg2) 0)\<rparr>"
    and run: "init mg1 mg2 bs c1 c2 tm1 tm2 pp as rp w
                = Inr ((self, mg1\<lparr>models := m1'\<rparr>, mg2\<lparr>models := m2'\<rparr>), w')"
    by blast
  have s1: "model1_size self = sum_list (map (\<lambda>p. numel (data p)) (models mg1))"
    and s2: "model2_size self = sum_list (map (\<lambda>p. numel (data p)) (models mg2))"
    by (simp_all add: self get_model_parameter_size_sum)
  have alloc: "buffers_allocated self w'"
    by (simp add: buffers_allocated_def flat_buffer_def self w')
  have zeros: "read_tensor (heap w') (flat_params_model1 self) = replicate (model1_size self) 0"
    "read_tensor (heap w') (flat_params_model2 self) = replicate (model2_size self) 0"
    "read_tensor (heap w') (flat_grads_model1 self) = replicate (model1_size self) 0"
    "read_tensor (heap w') (flat_grads_model2 self) = replicate (model2_size self) 0"
    by (simp_all add: read_tensor_def numel_def self w')
  have al1: "aliases (flat_params_model1 self) (flat_grads_model1 self) (models mg1)
               (models (mg1\<lparr>models := m1'\<rparr>))"
    and al2: "aliases (flat_params_model2 self) (flat_grads_model2 self) (models mg2)
               (models (mg2\<lparr>models := m2'\<rparr>))"
    using a1 a2 by (simp_all add: self)
  have c1: "contiguous_slices (map data (models (mg1\<lparr>models := m1'\<rparr>))) (model1_size self)"
    "contiguous_slices (map (\<lambda>p. the (grad p)) (models (mg1\<lparr>models := m1'\<rparr>))) (model1_size self)"
    using aliases_contiguous [OF al1] by (simp_all add: s1)
  have c2: "contiguous_slices (map data (models (mg2\<lparr>models := m2'\<rparr>))) (model2_size self)"
    "contiguous_slices (map (\<lambda>p. the (grad p)) (models (mg2\<lparr>models := m2'\<rparr>))) (model2_size self)"
    using aliases_contiguous [OF al2] by (simp_all add: s2)
  from run s1 s2 alloc zeros al1 al2 c1 c2 show ?thesis by blast
qed

theorem init_flat_buffers_witness:
  "\<exists>self mg1' mg2' w'.
     init example_model1 example_model2 8 \<lparr>comm_mp_size = 8, comm_local_rank = 1\<rparr>
       \<lparr>comm_mp_size = 8, comm_local_rank = 6\<rparr>
       \<lparr>tm_local_rank = 1, split_rank = 1, tm_split_size = 2\<rparr>
       \<lparr>tm_local_rank = 6, split_rank = 1, tm_split_size = 2\<rparr> 2 True 1 example_world
       = Inr ((self, mg1', mg2'), w')
   \<and> model1_size self = 17
   \<and> shape (flat_params_model1 self) = [17] \<and> shape (flat_grads_model1 self) = [17]
   \<and> requires_grad (flat_params_model1 self) \<and> \<not> requires_grad (flat_grads_model1 self)
   \<and> read_tensor (heap w') (flat_params_model1 self) = replicate 17 0
   \<and> read_tensor (heap w') (flat_grads_model1 self) = replicate 17 0
   \<and> data (models mg1' ! 0) = \<lparr>storage = storage (flat_params_model1 self), offset = 0,
                                   shape = [3, 4], requires_grad = True\<rparr>
   \<and> data (models mg1' ! 1) = \<lparr>storage = storage (flat_params_model1 self), offset = 12,
                                   shape = [5], requires_grad = True\<rparr>
   \<and> grad (models mg1' ! 0) = Some \<lparr>storage = storage (flat_grads_model1 self), offset = 0,
                                   shape = [3, 4], requires_grad = False\<rparr>
   \<and> grad (models mg1' ! 1) = Some \<lparr>storage = storage (flat_grads_model1 self), offset = 12,
                                   shape = [5], requires_grad = False\<rparr>
   \<and> region (data (models mg1' ! 0)) = {0..<12} \<and> region (data (models mg1' ! 1)) = {12..<17}"
proof -
  from init_flat_buffers [of example_model1 example_model2 8 "\<lparr>comm_mp_size = 8, comm_local_rank = 1\<rparr>"
       "\<lparr>comm_mp_size = 8, comm_local_rank = 6\<rparr>"
       "\<lparr>tm_local_rank = 1, split_rank = 1, tm_split_size = 2\<rparr>"
       "\<lparr>tm_local_rank = 6, split_rank = 1, tm_split_size = 2\<rparr>" 2 True 1 example_world]
  obtain self mg1' mg2' w' where
    run: "init example_model1 example_model2 8 \<lparr>comm_mp_size = 8, comm_local_rank = 1\<rparr>
       \<lparr>comm_mp_size = 8, comm_local_rank = 6\<rparr>
       \<lparr>tm_local_rank = 1, split_rank = 1, tm_split_size = 2\<rparr>
       \<lparr>tm_local_rank = 6, split_rank = 1, tm_split_size = 2\<rparr> 2 True 1 example_world
       = Inr ((self, mg1', mg2'), w')"
    and size: "model1_size self = sum_list (map (\<lambda>p. numel (data p)) (models example_model1))"
    and alloc: "buffers_allocated self w'"
    and zeros: "read_tensor (heap w') (flat_params_model1 self) = replicate (model1_size self) 0"
       "read_tensor (heap w') (flat_grads_model1 self) = replicate (model1_size self) 0"
    and al: "aliases (flat_params_model1 self) (flat_grads_model1 self) (models example_model1) (models mg1')"
    by blast
  have size17: "model1_size self = 17"
    using size by (simp add: example_model1_def numel_def)
  have bufs: "shape (flat_params_model1 self) = [17]" "shape (flat_grads_model1 self) = [17]"
    "requires_grad (flat_params_model1 self)" "\<not> requires_grad (flat_grads_model1 self)"
    using alloc size17 by (simp_all add: buffers_allocated_def flat_buffer_def)
  have len: "length (models example_model1) = 2"
    by (simp add: example_model1_def)
  have p0: "data (models mg1' ! 0) = \<lparr>storage = storage (flat_params_model1 self), offset = 0,
                                   shape = [3, 4], requires_grad = True\<rparr>
      \<and> grad (models mg1' ! 0) = Some \<lparr>storage = storage (flat_grads_model1 self), offset = 0,
                                   shape = [3, 4], requires_grad = False\<rparr>"
    using al len unfolding aliases_def
    by (elim conjE allE [of _ 0]) (simp add: example_model1_def)
  have p1: "data (models mg1' ! 1) = \<lparr>storage = storage (flat_params_model1 self), offset = 12,
                                   shape = [5], requires_grad = True\<rparr>
      \<and> grad (models mg1' ! 1) = Some \<lparr>storage = storage (flat_grads_model1 self), offset = 12,
                                   shape = [5], requires_grad = False\<rparr>"
    using al len unfolding aliases_def
    by (elim conjE allE [of _ 1]) (simp add: example_model1_def slice_start_def numel_def)
  have regs: "region (data (models mg1' ! 0)) = {0..<12}" "region (data (models mg1' ! 1)) = {12..<17}"
    using p0 p1 by (simp_all add: region_def numel_def)
  from run size17 bufs zeros p0 p1 regs show ?thesis
    by (intro exI [of _ self] exI [of _ mg1'] exI [of _ mg2'] exI [of _ w']) simp
qed

lemma ravel_bound:
  "ravel shp idx acc = Inr k \<Longrightarrow> acc * prod_list shp \<le> k \<and> k < (acc + 1) * prod_list shp"
proof (induction shp idx acc rule: ravel.induct)
  case (1 acc)
  then show ?case by simp
next
  case (2 d ds i "is" acc)
  from "2.prems" have i: "i < d" and r: "ravel ds is (acc * d + i) = Inr k"
    by (simp_all split: if_splits)
  from "2.IH" [OF i r] have lo: "(acc * d + i) * prod_list ds \<le> k"
    and hi: "k < (acc * d + i + 1) * prod_list ds" by simp_all
  have "acc * d * prod_list ds \<le> (acc * d + i) * prod_list ds"
    by (rule mult_le_mono1) simp
  from this lo have "acc * d * prod_list ds \<le> k"
    by (rule order_trans)
  then have lo': "acc * prod_list (d # ds) \<le> k"
    by (simp add: mult.assoc)
  have "acc * d + i + 1 \<le> (acc + 1) * d"
    using i by (simp add: add_mult_distrib)
  then have "(acc * d + i + 1) * prod_list ds \<le> ((acc + 1) * d) * prod_list ds"
    by (rule mult_le_mono1)
  with hi have "k < ((acc + 1) * d) * prod_list ds"
    by (rule less_le_trans)
  then have "k < (acc + 1) * prod_list (d # ds)"
    by (simp add: algebra_simps)
  with lo' show ?case by simp
qed simp_all

text \<open>
  C4. After the aliasing pass over a flat buffer that holds the parameters' elements,
  element \<open>idx\<close> of parameter \<open>i\<close> and the flat element at
  \<open>slice_start ps i + k\<close> (\<open>k\<close> the row-major position of \<open>idx\<close>) are the same cell:
  they read the same value, writing \<open>v\<close> through either gives the same memory, and the
  other view then reads \<open>v\<close>. For shapes (3, 4) and (5), flat index 0 is element [0, 0]
  of the first parameter.
\<close>

theorem flat_buffer_aliasing_roundtrip:
  assumes flat: "shape flat = [n]" "n = sum_list (map (\<lambda>p. numel (data p)) ps)"
    and stored: "offset flat + n \<le> length (h (storage flat))"
    and i: "i < length ps"
    and idx: "ravel (shape (data (ps ! i))) idx 0 = Inr k"
  shows "\<exists>ps' h1 h2.
      update_model_params_loc ps flat = Inr ps'
    \<and> get_item h (data (ps' ! i)) idx = get_item h flat [slice_start ps i + k]
    \<and> set_item h flat [slice_start ps i + k] v = Inr h1
    \<and> get_item h1 (data (ps' ! i)) idx = Inr v
    \<and> set_item h (data (ps' ! i)) idx v = Inr h2
    \<and> get_item h2 flat [slice_start ps i + k] = Inr v
    \<and> h1 = h2"
proof -
  from params_loc_loop_result [of flat n 0 ps] flat
  obtain ps' where run: "update_model_params_loc ps flat = Inr ps'"
    and nth: "\<forall>i<length ps. ps' ! i = set_data (ps ! i)
          (flat\<lparr>offset := offset flat + 0 + slice_start ps i, shape := shape (data (ps ! i))\<rparr>)"
    by (auto simp: update_model_params_loc_def)
  from nth i have d: "storage (data (ps' ! i)) = storage flat"
    "offset (data (ps' ! i)) = offset flat + slice_start ps i"
    "shape (data (ps' ! i)) = shape (data (ps ! i))"
    by (simp_all add: set_data_def)
  from ravel_bound [OF idx] have "k < numel (data (ps ! i))"
    by (simp add: numel_def)
  then have "slice_start ps i + k < slice_start ps (Suc i)"
    using i by (simp add: slice_start_Suc)
  also have "\<dots> \<le> slice_start ps (length ps)"
    using i by (intro slice_start_mono) simp
  finally have j: "slice_start ps i + k < n"
    using flat(2) by (simp add: slice_start_length)
  let ?j = "slice_start ps i + k"
  let ?h' = "h(storage flat := (h (storage flat))[offset flat + ?j := v])"
  have g: "get_item h (data (ps' ! i)) idx = get_item h flat [?j]"
    using d idx j flat(1) by (simp add: get_item_def add.assoc)
  have s1: "set_item h flat [?j] v = Inr ?h'"
    using j flat(1) by (simp add: set_item_def)
  have s2: "set_item h (data (ps' ! i)) idx v = Inr ?h'"
    using d idx by (simp add: set_item_def add.assoc)
  have inb: "offset flat + ?j < length (h (storage flat))"
    using j stored by simp
  have r1: "get_item ?h' (data (ps' ! i)) idx = Inr v"
    using d idx inb by (simp add: get_item_def add.assoc)
  have r2: "get_item ?h' flat [?j] = Inr v"
    using j flat(1) inb by (simp add: get_item_def)
  from run g s1 r1 s2 r2 show ?thesis by blast
qed

theorem flat_buffer_aliasing_roundtrip_witness:
  "\<exists>ps' h1 h2.
      update_model_params_loc (models example_model1) (flat_params_model1 (example_self 8 1)) = Inr ps'
    \<and> get_item (heap example_inbox_world) (data (ps' ! 0)) [0, 0]
        = get_item (heap example_inbox_world) (flat_params_model1 (example_self 8 1)) [0]
    \<and> set_item (heap example_inbox_world) (flat_params_model1 (example_self 8 1)) [0] 42 = Inr h1
    \<and> get_item h1 (data (ps' ! 0)) [0, 0] = Inr 42
    \<and> set_item (heap example_inbox_world) (data (ps' ! 0)) [0, 0] 42 = Inr h2
    \<and> get_item h2 (flat_params_model1 (example_self 8 1)) [0] = Inr 42"
proof -
  have shape: "shape (flat_params_model1 (example_self 8 1)) = [17]"
    by (simp add: example_fields)
  have total: "17 = sum_list (map (\<lambda>p. numel (data p)) (models example_model1))"
    by (simp add: example_model1_def numel_def)
  have stored: "offset (flat_params_model1 (example_self 8 1)) + 17
      \<le> length (heap example_inbox_world (storage (flat_params_model1 (example_self 8 1))))"
    by (simp add: example_fields example_inbox_world_def)
  have i: "0 < length (models example_model1)"
    by (simp add: example_model1_def)
  have idx: "ravel (shape (data (models example_model1 ! 0))) [0, 0] 0 = Inr 0"
    by (simp add: example_model1_def)
  from flat_buffer_aliasing_roundtrip [of "flat_params_model1 (example_self 8 1)" 17
      "models example_model1" "heap example_inbox_world" 0 "[0, 0]" 0 42]
    shape total stored i idx
  show ?thesis by auto
qed

section \<open>Properties of the step scheduler\<close>

lemma forward_outputs_length:
  "length (fst (forward_outputs ex tm dx dy ps is h)) = length is"
  by (induction "is" arbitrary: h) (simp_all add: Let_def)

lemma forward_loop_result:
  "forward_loop ex self tm dx dy ps is (yl, lo, co) w =
     Inr ((yl @ map fst (fst (forward_outputs ex tm dx dy ps is (heap w))),
           lo + (if terminal self tm
                 then sum_list (map (\<lambda>yc. item ex (fst yc)) (fst (forward_outputs ex tm dx dy ps is (heap w))))
                 else 0),
           co + (if terminal self tm
                 then sum_list (map (\<lambda>yc. item ex (snd yc)) (fst (forward_outputs ex tm dx dy ps is (heap w))))
                 else 0)),
          w\<lparr>heap := snd (forward_outputs ex tm dx dy ps is (heap w)),
            trace := trace w @ forward_events tm dx dy ps is
                                 (fst (forward_outputs ex tm dx dy ps is (heap w)))\<rparr>)"
proof (induction "is" arbitrary: yl lo co w)
  case Nil
  then show ?case by (simp add: pure_m_def forward_events_def)
next
  case (Cons i "is")
  show ?case
    by (simp add: Let_def then_m_def call_forward_def log_def Cons.IH forward_events_def terminal_def
        split: prod.splits)
qed

lemma backward_loop_result:
  assumes "\<forall>i\<in>set is. i < length yl"
  shows "backward_loop ex tm yl is w =
     Inr ((), w\<lparr>heap := foldl (\<lambda>h i. backward_pass ex tm (yl ! i) i h) (heap w) is,
               trace := trace w @ map (\<lambda>i. BackwardPass tm (yl ! i) i) is\<rparr>)"
  using assms
proof (induction "is" arbitrary: w)
  case Nil
  then show ?case by (simp add: pure_m_def)
next
  case (Cons i "is")
  then show ?case
    by (simp add: then_m_def call_backward_def log_def)
qed

lemma edge_recv_params:
  "then_m (recv_params_model self r oi) wait w =
     (case inbox w of
        [] \<Rightarrow> Inl Blocked
      | m # ms \<Rightarrow>
          if length m = numel (if oi then flat_params_model1 self else flat_params_model2 self)
          then Inr ((), w\<lparr>heap := write_tensor (heap w)
                              (if oi then flat_params_model1 self else flat_params_model2 self) m,
                          inbox := ms,
                          trace := trace w @
                            [Irecv (if oi then flat_params_model1 self else flat_params_model2 self) r 0,
                             Wait (RecvReq (if oi then flat_params_model1 self else flat_params_model2 self) r 0)]\<rparr>)
          else Inl RuntimeError)"
  by (cases oi; cases "inbox w")
     (simp_all add: recv_params_model_def act_defs wait_def)

lemma edge_send_params:
  "then_m (send_params_model self r oi) wait w =
     Inr ((), w\<lparr>trace := trace w @
            [Isend (if oi then flat_params_model2 self else flat_params_model1 self) r 0,
             Wait (SendReq (if oi then flat_params_model2 self else flat_params_model1 self) r 0)]\<rparr>)"
  by (cases oi) (simp_all add: send_params_model_def act_defs wait_def)

lemma edge_send_grads:
  "then_m (send_grads_model self r oi) wait w =
     Inr ((), w\<lparr>trace := trace w @
            [Isend (if oi then flat_grads_model2 self else flat_grads_model1 self) r 0,
             Wait (SendReq (if oi then flat_grads_model2 self else flat_grads_model1 self) r 0)]\<rparr>)"
  by (cases oi) (simp_all add: send_grads_model_def act_defs wait_def)

lemma send_recv_params_trace:
  "send_recv_params self oi w = Inr (u, w') \<Longrightarrow>
     trace w' = trace w @ params_exchange self oi \<and> (\<exists>h. heap w' = h)"
  unfolding send_recv_params_unfold params_exchange_def
  by (cases "inbox w") (auto split: if_splits)

lemma then_m_InrE:
  assumes "then_m m f w = Inr r"
  obtains a w1 where "m w = Inr (a, w1)" "f a w1 = Inr r"
  using assms by (auto simp: then_m_def split: sum.splits)

lemma first_replica_part_trace:
  assumes run: "first_replica_part ex self tm1 inputs labels oi ps lc w = Inr (lc', w')"
  shows "\<exists>h0. 
     trace w' = trace w @
       (if tm_local_rank (tm_of self tm1) = mp_size self - 1
        then [Irecv (if oi then flat_params_model1 self else flat_params_model2 self)
                (mp_size self - 1 - local_rank self) 0,
              Wait (RecvReq (if oi then flat_params_model1 self else flat_params_model2 self)
                (mp_size self - 1 - local_rank self) 0)]
        else [])
       @ forward_events tm1 (take (batch_size self) inputs) (take (batch_size self) labels) ps
           [0..<parts self]
           (fst (forward_outputs ex tm1 (take (batch_size self) inputs) (take (batch_size self) labels)
                   ps [0..<parts self] h0))
       @ (if tm_local_rank (tm_of self tm1) = mp_size self - 1 then [] else params_exchange self oi)
       @ map (\<lambda>i. BackwardPass tm1
                 (map fst (fst (forward_outputs ex tm1 (take (batch_size self) inputs)
                    (take (batch_size self) labels) ps [0..<parts self] h0)) ! i) i) [0..<parts self]
       @ (if tm_local_rank (tm_of self tm1) = mp_size self - 1
          then [Isend (if oi then flat_params_model2 self else flat_params_model1 self)
                  (mp_size self - 1 - local_rank self) 0,
                Wait (SendReq (if oi then flat_params_model2 self else flat_params_model1 self)
                  (mp_size self - 1 - local_rank self) 0)]
          else [])
   \<and> lc' = (fst lc + (if terminal self tm1
                       then sum_list (map (\<lambda>yc. item ex (fst yc))
                         (fst (forward_outputs ex tm1 (take (batch_size self) inputs)
                            (take (batch_size self) labels) ps [0..<parts self] h0)))
                       else 0),
            snd lc + (if terminal self tm1
                       then sum_list (map (\<lambda>yc. item ex (snd yc))
                         (fst (forward_outputs ex tm1 (take (batch_size self) inputs)
                            (take (batch_size self) labels) ps [0..<parts self] h0)))
                       else 0))"
proof -
  obtain lo co where lc: "lc = (lo, co)" by (cases lc)
  have recv: "then_m (recv_params_model self r oi) wait = (\<lambda>w. case inbox w of
        [] \<Rightarrow> Inl Blocked
      | m # ms \<Rightarrow>
          if length m = numel (if oi then flat_params_model1 self else flat_params_model2 self)
          then Inr ((), w\<lparr>heap := write_tensor (heap w)
                              (if oi then flat_params_model1 self else flat_params_model2 self) m,
                          inbox := ms,
                          trace := trace w @
                            [Irecv (if oi then flat_params_model1 self else flat_params_model2 self) r 0,
                             Wait (RecvReq (if oi then flat_params_model1 self else flat_params_model2 self) r 0)]\<rparr>)
          else Inl RuntimeError)" for r
    by (rule ext) (rule edge_recv_params)
  have send: "then_m (send_params_model self r oi) wait = (\<lambda>w.
     Inr ((), w\<lparr>trace := trace w @
            [Isend (if oi then flat_params_model2 self else flat_params_model1 self) r 0,
             Wait (SendReq (if oi then flat_params_model2 self else flat_params_model1 self) r 0)]\<rparr>))" for r
    by (rule ext) (rule edge_send_params)
  show ?thesis
  proof (cases "tm_local_rank (tm_of self tm1) = mp_size self - 1")
    case True
    with run lc show ?thesis
      by (cases "inbox w")
         (auto simp: first_replica_part_def Let_def recv send then_m_def pure_m_def
            forward_loop_result backward_loop_result forward_outputs_length split: if_splits)
  next
    case False
    with run lc show ?thesis
      by (cases "inbox w")
         (auto simp: first_replica_part_def Let_def then_m_def pure_m_def
            send_recv_params_unfold params_exchange_def
            forward_loop_result backward_loop_result forward_outputs_length split: if_splits)
  qed
qed

lemma edge_recv_grads:
  "then_m (if oi
           then then_m (torch_zeros (model1_size self) False) (\<lambda>r. pure_m (r, r1))
           else then_m (torch_zeros (model2_size self) False) (\<lambda>r. pure_m (r, r2)))
     (\<lambda>(flat_grads_recv, recv_rank).
        then_m (recv_grads_model self flat_grads_recv p) (\<lambda>req1.
        then_m (wait req1) (\<lambda>_.
        if oi
        then tensor_iadd (flat_grads_model1 self) flat_grads_recv
        else tensor_iadd (flat_grads_model2 self) flat_grads_recv)))
   = (\<lambda>w. case inbox w of
        [] \<Rightarrow> Inl Blocked
      | m # ms \<Rightarrow>
          if length m = (if oi then model1_size self else model2_size self)
          then tensor_iadd (if oi then flat_grads_model1 self else flat_grads_model2 self)
                 \<lparr>storage = next_addr w, offset = 0,
                   shape = [if oi then model1_size self else model2_size self], requires_grad = False\<rparr>
                 (w\<lparr>next_addr := Suc (next_addr w),
                    heap := (heap w)(next_addr w := m),
                    inbox := ms,
                    trace := trace w @
                      [Irecv \<lparr>storage = next_addr w, offset = 0,
                               shape = [if oi then model1_size self else model2_size self],
                               requires_grad = False\<rparr> p 0,
                       Wait (RecvReq \<lparr>storage = next_addr w, offset = 0,
                               shape = [if oi then model1_size self else model2_size self],
                               requires_grad = False\<rparr> p 0)]\<rparr>)
          else Inl RuntimeError)"
proof (rule ext)
  fix w :: "('a, 'b) world"
  show "then_m (if oi
           then then_m (torch_zeros (model1_size self) False) (\<lambda>r. pure_m (r, r1))
           else then_m (torch_zeros (model2_size self) False) (\<lambda>r. pure_m (r, r2)))
     (\<lambda>(flat_grads_recv, recv_rank).
        then_m (recv_grads_model self flat_grads_recv p) (\<lambda>req1.
        then_m (wait req1) (\<lambda>_.
        if oi
        then tensor_iadd (flat_grads_model1 self) flat_grads_recv
        else tensor_iadd (flat_grads_model2 self) flat_grads_recv))) w
   = (case inbox w of
        [] \<Rightarrow> Inl Blocked
      | m # ms \<Rightarrow>
          if length m = (if oi then model1_size self else model2_size self)
          then tensor_iadd (if oi then flat_grads_model1 self else flat_grads_model2 self)
                 \<lparr>storage = next_addr w, offset = 0,
                   shape = [if oi then model1_size self else model2_size self], requires_grad = False\<rparr>
                 (w\<lparr>next_addr := Suc (next_addr w),
                    heap := (heap w)(next_addr w := m),
                    inbox := ms,
                    trace := trace w @
                      [Irecv \<lparr>storage = next_addr w, offset = 0,
                               shape = [if oi then model1_size self else model2_size self],
                               requires_grad = False\<rparr> p 0,
                       Wait (RecvReq \<lparr>storage = next_addr w, offset = 0,
                               shape = [if oi then model1_size self else model2_size self],
                               requires_grad = False\<rparr> p 0)]\<rparr>)
          else Inl RuntimeError)"
    by (cases oi; cases "inbox w")
       (simp_all add: recv_grads_model_def act_defs wait_def torch_zeros_def numel_def write_tensor_def)
qed

lemma second_replica_part_trace:
  assumes run: "second_replica_part ex self tm2 inputs labels oi ps lc w = Inr (lc', w')"
  shows "\<exists>h0.
     trace w' = trace w @
       (if tm_local_rank (tm_of self tm2) = mp_size self - 1
        then [Irecv \<lparr>storage = next_addr w, offset = 0,
                      shape = [if oi then model1_size self else model2_size self],
                      requires_grad = False\<rparr> (mp_size self - 1 - local_rank self) 0,
              Wait (RecvReq \<lparr>storage = next_addr w, offset = 0,
                      shape = [if oi then model1_size self else model2_size self],
                      requires_grad = False\<rparr> (mp_size self - 1 - local_rank self) 0)]
        else [])
       @ forward_events tm2 (drop (batch_size self) inputs) (drop (batch_size self) labels) ps
           [0..<parts self]
           (fst (forward_outputs ex tm2 (drop (batch_size self) inputs) (drop (batch_size self) labels)
                   ps [0..<parts self] h0))
       @ (if tm_local_rank (tm_of self tm2) = mp_size self - 1 then []
          else grads_exchange self oi (next_addr w))
       @ map (\<lambda>i. BackwardPass tm2
                 (map fst (fst (forward_outputs ex tm2 (drop (batch_size self) inputs)
                    (drop (batch_size self) labels) ps [0..<parts self] h0)) ! i) i) [0..<parts self]
       @ (if tm_local_rank (tm_of self tm2) = mp_size self - 1
          then [Isend (if oi then flat_grads_model2 self else flat_grads_model1 self)
                  (mp_size self - 1 - local_rank self) 0,
                Wait (SendReq (if oi then flat_grads_model2 self else flat_grads_model1 self)
                  (mp_size self - 1 - local_rank self) 0)]
          else [])
   \<and> lc' = (fst lc + (if terminal self tm2
                       then sum_list (map (\<lambda>yc. item ex (fst yc))
                         (fst (forward_outputs ex tm2 (drop (batch_size self) inputs)
                            (drop (batch_size self) labels) ps [0..<parts self] h0)))
                       else 0),
            snd lc + (if terminal self tm2
                       then sum_list (map (\<lambda>yc. item ex (snd yc))
                         (fst (forward_outputs ex tm2 (drop (batch_size self) inputs)
                            (drop (batch_size self) labels) ps [0..<parts self] h0)))
                       else 0))"
proof -
  obtain lo co where lc: "lc = (lo, co)" by (cases lc)
  have send: "then_m (send_grads_model self r oi) wait = (\<lambda>w.
     Inr ((), w\<lparr>trace := trace w @
            [Isend (if oi then flat_grads_model2 self else flat_grads_model1 self) r 0,
             Wait (SendReq (if oi then flat_grads_model2 self else flat_grads_model1 self) r 0)]\<rparr>))" for r
    by (rule ext) (rule edge_send_grads)
  show ?thesis
  proof (cases "tm_local_rank (tm_of self tm2) = mp_size self - 1")
    case True
    let ?T = "\<lparr>storage = next_addr w, offset = 0,
               shape = [if oi then model1_size self else model2_size self], requires_grad = False\<rparr>"
    let ?w0 = "w\<lparr>next_addr := Suc (next_addr w),
                 heap := (heap w)(next_addr w := hd (inbox w)),
                 inbox := tl (inbox w),
                 trace := trace w @
                   [Irecv ?T (mp_size self - 1 - local_rank self) 0,
                    Wait (RecvReq ?T (mp_size self - 1 - local_rank self) 0)]\<rparr>"
    let ?h0 = "case tensor_iadd (if oi then flat_grads_model1 self else flat_grads_model2 self) ?T ?w0 of
                 Inr (u, w1) \<Rightarrow> heap w1 | Inl e \<Rightarrow> heap w"
    from run lc True show ?thesis
      apply (intro exI [of _ ?h0])
      apply (cases "inbox w")
       apply (simp add: second_replica_part_def Let_def edge_recv_grads then_m_def)
      apply (auto simp: second_replica_part_def Let_def edge_recv_grads send then_m_def pure_m_def
            forward_loop_result backward_loop_result forward_outputs_length
            split: if_splits sum.splits dest!: tensor_iadd_trace)
      done
  next
    case False
    from run lc False show ?thesis
      apply (intro exI [of _ "heap w"])
      apply (cases "inbox w")
       apply (auto simp: second_replica_part_def Let_def then_m_def pure_m_def
            send_recv_grads_unfold grads_exchange_def
            forward_loop_result backward_loop_result forward_outputs_length
            split: if_splits sum.splits dest!: tensor_iadd_trace)
      done
  qed
qed

lemma first_part_events_alt:
  "first_part_events self tm1 oi dx dy ps ycs =
       (if tm_local_rank (tm_of self tm1) = mp_size self - 1
        then [Irecv (if oi then flat_params_model1 self else flat_params_model2 self)
                (mp_size self - 1 - local_rank self) 0,
              Wait (RecvReq (if oi then flat_params_model1 self else flat_params_model2 self)
                (mp_size self - 1 - local_rank self) 0)]
        else [])
       @ forward_events tm1 dx dy ps [0..<parts self] ycs
       @ (if tm_local_rank (tm_of self tm1) = mp_size self - 1 then [] else params_exchange self oi)
       @ map (\<lambda>i. BackwardPass tm1 (map fst ycs ! i) i) [0..<parts self]
       @ (if tm_local_rank (tm_of self tm1) = mp_size self - 1
          then [Isend (if oi then flat_params_model2 self else flat_params_model1 self)
                  (mp_size self - 1 - local_rank self) 0,
                Wait (SendReq (if oi then flat_params_model2 self else flat_params_model1 self)
                  (mp_size self - 1 - local_rank self) 0)]
          else [])"
  by (simp add: first_part_events_def backward_events_def)

lemma second_part_events_alt:
  "second_part_events self tm2 oi a dx dy ps ycs =
       (if tm_local_rank (tm_of self tm2) = mp_size self - 1
        then [Irecv \<lparr>storage = a, offset = 0,
                      shape = [if oi then model1_size self else model2_size self],
                      requires_grad = False\<rparr> (mp_size self - 1 - local_rank self) 0,
              Wait (RecvReq \<lparr>storage = a, offset = 0,
                      shape = [if oi then model1_size self else model2_size self],
                      requires_grad = False\<rparr> (mp_size self - 1 - local_rank self) 0)]
        else [])
       @ forward_events tm2 dx dy ps [0..<parts self] ycs
       @ (if tm_local_rank (tm_of self tm2) = mp_size self - 1 then []
          else grads_exchange self oi a)
       @ map (\<lambda>i. BackwardPass tm2 (map fst ycs ! i) i) [0..<parts self]
       @ (if tm_local_rank (tm_of self tm2) = mp_size self - 1
          then [Isend (if oi then flat_grads_model2 self else flat_grads_model1 self)
                  (mp_size self - 1 - local_rank self) 0,
                Wait (SendReq (if oi then flat_grads_model2 self else flat_grads_model1 self)
                  (mp_size self - 1 - local_rank self) 0)]
          else [])"
  by (simp add: second_part_events_def backward_events_def)

lemma int_truediv_nat:
  "n \<noteq> 0 \<Longrightarrow> int_truediv (int b) (int n) = Inr (int (b div n))"
  by (simp add: int_truediv_def sgn_if zdiv_int)

lemma run_step_allreduce_trace:
  assumes run: "run_step_allreduce ex self inputs labels oi w = Inr ((loss, corrects), w')"
  shows "parts self \<noteq> 0 \<and>
    (\<exists>ycs1 ycs2 a.
       length ycs1 = parts self \<and> length ycs2 = parts self
     \<and> trace w' = trace w
         @ first_part_events self (if oi then TrainModel2 else TrainModel1) oi
             (take (batch_size self) inputs) (take (batch_size self) labels)
             (batch_size self div parts self) ycs1
         @ second_part_events self (if oi then TrainModel1 else TrainModel2) oi a
             (drop (batch_size self) inputs) (drop (batch_size self) labels)
             (batch_size self div parts self) ycs2
     \<and> loss = (if terminal self (if oi then TrainModel2 else TrainModel1)
               then sum_list (map (\<lambda>yc. item ex (fst yc)) ycs1) else 0)
            + (if terminal self (if oi then TrainModel1 else TrainModel2)
               then sum_list (map (\<lambda>yc. item ex (fst yc)) ycs2) else 0)
     \<and> corrects = (if terminal self (if oi then TrainModel2 else TrainModel1)
               then sum_list (map (\<lambda>yc. item ex (snd yc)) ycs1) else 0)
            + (if terminal self (if oi then TrainModel1 else TrainModel2)
               then sum_list (map (\<lambda>yc. item ex (snd yc)) ycs2) else 0))"
proof -
  let ?A = "if oi then TrainModel2 else TrainModel1"
  let ?B = "if oi then TrainModel1 else TrainModel2"
  let ?ps = "batch_size self div parts self"
  have nz: "parts self \<noteq> 0"
    using run by (auto simp: run_step_allreduce_def then_m_def lift_m_def int_truediv_def split: if_splits)
  from run nz obtain lc w1 where
    one: "first_replica_part ex self ?A inputs labels oi ?ps (0, 0) w = Inr (lc, w1)"
    and two: "second_replica_part ex self ?B inputs labels oi ?ps lc w1 = Inr ((loss, corrects), w')"
    by (auto simp: run_step_allreduce_def Let_def lift_m_def int_truediv_nat then_m_def
          split: sum.splits)
  from first_replica_part_trace [OF one, folded first_part_events_alt] obtain h1 where
    t1: "trace w1 = trace w @ first_part_events self ?A oi (take (batch_size self) inputs)
           (take (batch_size self) labels) ?ps
           (fst (forward_outputs ex ?A (take (batch_size self) inputs) (take (batch_size self) labels)
                   ?ps [0..<parts self] h1))"
    and l1: "lc = (fst (0::real, 0::real) + (if terminal self ?A
                       then sum_list (map (\<lambda>yc. item ex (fst yc))
                         (fst (forward_outputs ex ?A (take (batch_size self) inputs)
                            (take (batch_size self) labels) ?ps [0..<parts self] h1)))
                       else 0),
                  snd (0::real, 0::real) + (if terminal self ?A
                       then sum_list (map (\<lambda>yc. item ex (snd yc))
                         (fst (forward_outputs ex ?A (take (batch_size self) inputs)
                            (take (batch_size self) labels) ?ps [0..<parts self] h1)))
                       else 0))"
    by blast
  from second_replica_part_trace [OF two, folded second_part_events_alt] obtain h2 where
    t2: "trace w' = trace w1 @ second_part_events self ?B oi (next_addr w1)
           (drop (batch_size self) inputs) (drop (batch_size self) labels) ?ps
           (fst (forward_outputs ex ?B (drop (batch_size self) inputs) (drop (batch_size self) labels)
                   ?ps [0..<parts self] h2))"
    and l2: "(loss, corrects) = (fst lc + (if terminal self ?B
                       then sum_list (map (\<lambda>yc. item ex (fst yc))
                         (fst (forward_outputs ex ?B (drop (batch_size self) inputs)
                            (drop (batch_size self) labels) ?ps [0..<parts self] h2)))
                       else 0),
                  snd lc + (if terminal self ?B
                       then sum_list (map (\<lambda>yc. item ex (snd yc))
                         (fst (forward_outputs ex ?B (drop (batch_size self) inputs)
                            (drop (batch_size self) labels) ?ps [0..<parts self] h2)))
                       else 0))"
    by blast
  let ?y1 = "fst (forward_outputs ex ?A (take (batch_size self) inputs) (take (batch_size self) labels)
                   ?ps [0..<parts self] h1)"
  let ?y2 = "fst (forward_outputs ex ?B (drop (batch_size self) inputs) (drop (batch_size self) labels)
                   ?ps [0..<parts self] h2)"
  have len: "length ?y1 = parts self" "length ?y2 = parts self"
    by (simp_all add: forward_outputs_length)
  have tr: "trace w' = trace w
         @ first_part_events self ?A oi (take (batch_size self) inputs) (take (batch_size self) labels)
             ?ps ?y1
         @ second_part_events self ?B oi (next_addr w1)
             (drop (batch_size self) inputs) (drop (batch_size self) labels) ?ps ?y2"
    using t1 t2 by simp
  have lo: "loss = (if terminal self ?A then sum_list (map (\<lambda>yc. item ex (fst yc)) ?y1) else 0)
            + (if terminal self ?B then sum_list (map (\<lambda>yc. item ex (fst yc)) ?y2) else 0)"
    and co: "corrects = (if terminal self ?A then sum_list (map (\<lambda>yc. item ex (snd yc)) ?y1) else 0)
            + (if terminal self ?B then sum_list (map (\<lambda>yc. item ex (snd yc)) ?y2) else 0)"
    using l1 l2 by simp_all
  from nz len tr lo co show ?thesis by blast
qed

lemma forward_calls_append: "forward_calls (xs @ ys) = forward_calls xs @ forward_calls ys"
  by (induction xs rule: forward_calls.induct) simp_all

lemma executor_calls_append: "executor_calls (xs @ ys) = executor_calls xs @ executor_calls ys"
  by (induction xs rule: executor_calls.induct) simp_all

lemma forward_events_nth:
  "length ycs = n \<Longrightarrow>
     forward_events tm dx dy ps [0..<n] ycs =
       map (\<lambda>i. ForwardPass tm (py_slice dx (i * ps) ((i + 1) * ps))
                    (py_slice dy (i * ps) ((i + 1) * ps)) i (fst (ycs ! i)) (snd (ycs ! i))) [0..<n]"
  by (auto simp: forward_events_def intro!: nth_equalityI)

lemma forward_calls_map_forward:
  "forward_calls (map (\<lambda>i. ForwardPass tm (f i) (g i) i (y i) (c i)) is)
     = map (\<lambda>i. (tm, f i, g i, i, y i, c i)) is"
  by (induction "is") simp_all

lemma executor_calls_map_forward:
  "executor_calls (map (\<lambda>i. ForwardPass tm (f i) (g i) i (y i) (c i)) is)
     = map (\<lambda>i. (tm, Forward, i)) is"
  by (induction "is") simp_all

lemma forward_calls_map_backward:
  "forward_calls (map (\<lambda>i. BackwardPass tm (y i) i) is) = []"
  by (induction "is") simp_all

lemma executor_calls_map_backward:
  "executor_calls (map (\<lambda>i. BackwardPass tm (y i) i) is) = map (\<lambda>i. (tm, Backward, i)) is"
  by (induction "is") simp_all

lemma exchange_calls:
  "forward_calls (params_exchange self oi) = []" "executor_calls (params_exchange self oi) = []"
  "forward_calls (grads_exchange self oi a) = []" "executor_calls (grads_exchange self oi a) = []"
  by (simp_all add: params_exchange_def grads_exchange_def)

lemma first_part_calls:
  assumes "length ycs = parts self"
  shows "forward_calls (first_part_events self tm oi dx dy ps ycs) =
           map (\<lambda>i. (tm, py_slice dx (i * ps) ((i + 1) * ps), py_slice dy (i * ps) ((i + 1) * ps),
                      i, ycs ! i)) [0..<parts self]"
    and "executor_calls (first_part_events self tm oi dx dy ps ycs) =
           map (\<lambda>i. (tm, Forward, i)) [0..<parts self] @ map (\<lambda>i. (tm, Backward, i)) [0..<parts self]"
  using assms
  by (simp_all add: first_part_events_def backward_events_def forward_events_nth
        forward_calls_append executor_calls_append exchange_calls
        forward_calls_map_forward executor_calls_map_forward
        forward_calls_map_backward executor_calls_map_backward)

lemma second_part_calls:
  assumes "length ycs = parts self"
  shows "forward_calls (second_part_events self tm oi a dx dy ps ycs) =
           map (\<lambda>i. (tm, py_slice dx (i * ps) ((i + 1) * ps), py_slice dy (i * ps) ((i + 1) * ps),
                      i, ycs ! i)) [0..<parts self]"
    and "executor_calls (second_part_events self tm oi a dx dy ps ycs) =
           map (\<lambda>i. (tm, Forward, i)) [0..<parts self] @ map (\<lambda>i. (tm, Backward, i)) [0..<parts self]"
  using assms
  by (simp_all add: second_part_events_def backward_events_def forward_events_nth
        forward_calls_append executor_calls_append exchange_calls
        forward_calls_map_forward executor_calls_map_forward
        forward_calls_map_backward executor_calls_map_backward)

lemma sum_over_calls:
  assumes "length ycs = n"
  shows "sum_list (map (\<lambda>(tm', dx, dy, i, y, c). if terminal self tm' then item ex y else 0)
           (map (\<lambda>i. (tm, f i, g i, i, ycs ! i)) [0..<n]))
         = (if terminal self tm then sum_list (map (\<lambda>yc. item ex (fst yc)) ycs) else 0)"
    and "sum_list (map (\<lambda>(tm', dx, dy, i, y, c). if terminal self tm' then item ex c else 0)
           (map (\<lambda>i. (tm, f i, g i, i, ycs ! i)) [0..<n]))
         = (if terminal self tm then sum_list (map (\<lambda>yc. item ex (snd yc)) ycs) else 0)"
proof -
  have ycs: "map (\<lambda>i. ycs ! i) [0..<n] = ycs"
    using assms map_nth [of ycs] by simp
  have a: "map (\<lambda>(tm', dx, dy, i, y, c). if terminal self tm' then item ex y else 0)
           (map (\<lambda>i. (tm, f i, g i, i, ycs ! i)) [0..<n])
        = map (\<lambda>yc. if terminal self tm then item ex (fst yc) else 0) (map (\<lambda>i. ycs ! i) [0..<n])"
    by (simp add: comp_def case_prod_beta)
  have b: "map (\<lambda>(tm', dx, dy, i, y, c). if terminal self tm' then item ex c else 0)
           (map (\<lambda>i. (tm, f i, g i, i, ycs ! i)) [0..<n])
        = map (\<lambda>yc. if terminal self tm then item ex (snd yc) else 0) (map (\<lambda>i. ycs ! i) [0..<n])"
    by (simp add: comp_def case_prod_beta)
  show "sum_list (map (\<lambda>(tm', dx, dy, i, y, c). if terminal self tm' then item ex y else 0)
           (map (\<lambda>i. (tm, f i, g i, i, ycs ! i)) [0..<n]))
         = (if terminal self tm then sum_list (map (\<lambda>yc. item ex (fst yc)) ycs) else 0)"
    unfolding a ycs by simp
  show "sum_list (map (\<lambda>(tm', dx, dy, i, y, c). if terminal self tm' then item ex c else 0)
           (map (\<lambda>i. (tm, f i, g i, i, ycs ! i)) [0..<n]))
         = (if terminal self tm then sum_list (map (\<lambda>yc. item ex (snd yc)) ycs) else 0)"
    unfolding b ycs by simp
qed

text \<open>
  C8. A call of \<^verbatim>\<open>run_step_allreduce\<close> that returns has run, in this order, the
  \<open>parts\<close> forward passes and the \<open>parts\<close> backward passes of the first replica
  (\<open>train_model1\<close> on an even iteration, \<open>train_model2\<close> on an odd one) and then those
  of the other replica; the first replica's micro-parts are cut from
  \<^verbatim>\<open>inputs[:batch_size]\<close> and the second's from \<^verbatim>\<open>inputs[batch_size:]\<close>; there are
  \<open>2 * parts\<close> forward passes, and the returned loss and corrects are the sums, over
  them, of the values of the passes whose replica is at the terminal stage.
\<close>

theorem run_step_allreduce_result:
  "run_step_allreduce ex self inputs labels oi w = Inr ((loss, corrects), w') \<longrightarrow>
   (\<exists>evs ycs1 ycs2.
      trace w' = trace w @ evs
    \<and> length ycs1 = parts self \<and> length ycs2 = parts self
    \<and> executor_calls evs =
        map (\<lambda>i. (if oi then TrainModel2 else TrainModel1, Forward, i)) [0..<parts self]
      @ map (\<lambda>i. (if oi then TrainModel2 else TrainModel1, Backward, i)) [0..<parts self]
      @ map (\<lambda>i. (if oi then TrainModel1 else TrainModel2, Forward, i)) [0..<parts self]
      @ map (\<lambda>i. (if oi then TrainModel1 else TrainModel2, Backward, i)) [0..<parts self]
    \<and> forward_calls evs =
        map (\<lambda>i. (if oi then TrainModel2 else TrainModel1,
                   py_slice (take (batch_size self) inputs)
                     (i * (batch_size self div parts self)) ((i + 1) * (batch_size self div parts self)),
                   py_slice (take (batch_size self) labels)
                     (i * (batch_size self div parts self)) ((i + 1) * (batch_size self div parts self)),
                   i, ycs1 ! i)) [0..<parts self]
      @ map (\<lambda>i. (if oi then TrainModel1 else TrainModel2,
                   py_slice (drop (batch_size self) inputs)
                     (i * (batch_size self div parts self)) ((i + 1) * (batch_size self div parts self)),
                   py_slice (drop (batch_size self) labels)
                     (i * (batch_size self div parts self)) ((i + 1) * (batch_size self div parts self)),
                   i, ycs2 ! i)) [0..<parts self]
    \<and> length (forward_calls evs) = 2 * parts self
    \<and> loss = sum_list (map (\<lambda>(tm, dx, dy, i, y, c). if terminal self tm then item ex y else 0)
                 (forward_calls evs))
    \<and> corrects = sum_list (map (\<lambda>(tm, dx, dy, i, y, c). if terminal self tm then item ex c else 0)
                 (forward_calls evs)))"
proof
  assume run: "run_step_allreduce ex self inputs labels oi w = Inr ((loss, corrects), w')"
  let ?A = "if oi then TrainModel2 else TrainModel1"
  let ?B = "if oi then TrainModel1 else TrainModel2"
  let ?ps = "batch_size self div parts self"
  from run_step_allreduce_trace [OF run] obtain ycs1 ycs2 a where
    len: "length ycs1 = parts self" "length ycs2 = parts self"
    and tr: "trace w' = trace w
         @ first_part_events self ?A oi (take (batch_size self) inputs) (take (batch_size self) labels)
             ?ps ycs1
         @ second_part_events self ?B oi a
             (drop (batch_size self) inputs) (drop (batch_size self) labels) ?ps ycs2"
    and lo: "loss = (if terminal self ?A then sum_list (map (\<lambda>yc. item ex (fst yc)) ycs1) else 0)
            + (if terminal self ?B then sum_list (map (\<lambda>yc. item ex (fst yc)) ycs2) else 0)"
    and co: "corrects = (if terminal self ?A then sum_list (map (\<lambda>yc. item ex (snd yc)) ycs1) else 0)
            + (if terminal self ?B then sum_list (map (\<lambda>yc. item ex (snd yc)) ycs2) else 0)"
    by blast
  let ?evs = "first_part_events self ?A oi (take (batch_size self) inputs) (take (batch_size self) labels)
             ?ps ycs1
         @ second_part_events self ?B oi a
             (drop (batch_size self) inputs) (drop (batch_size self) labels) ?ps ycs2"
  have ec: "executor_calls ?evs =
        map (\<lambda>i. (?A, Forward, i)) [0..<parts self] @ map (\<lambda>i. (?A, Backward, i)) [0..<parts self]
      @ map (\<lambda>i. (?B, Forward, i)) [0..<parts self] @ map (\<lambda>i. (?B, Backward, i)) [0..<parts self]"
    by (simp only: executor_calls_append first_part_calls(2) [OF len(1)]
          second_part_calls(2) [OF len(2)] append_assoc)
  have fc: "forward_calls ?evs =
        map (\<lambda>i. (?A, py_slice (take (batch_size self) inputs) (i * ?ps) ((i + 1) * ?ps),
                   py_slice (take (batch_size self) labels) (i * ?ps) ((i + 1) * ?ps),
                   i, ycs1 ! i)) [0..<parts self]
      @ map (\<lambda>i. (?B, py_slice (drop (batch_size self) inputs) (i * ?ps) ((i + 1) * ?ps),
                   py_slice (drop (batch_size self) labels) (i * ?ps) ((i + 1) * ?ps),
                   i, ycs2 ! i)) [0..<parts self]"
    by (simp only: forward_calls_append first_part_calls(1) [OF len(1)]
          second_part_calls(1) [OF len(2)])
  have n: "length (forward_calls ?evs) = 2 * parts self"
    unfolding fc by simp
  have lo': "loss = sum_list (map (\<lambda>(tm, dx, dy, i, y, c). if terminal self tm then item ex y else 0)
                 (forward_calls ?evs))"
    unfolding fc map_append sum_list_append
    by (simp only: sum_over_calls(1) [OF len(1)] sum_over_calls(1) [OF len(2)] lo)
  have co': "corrects = sum_list (map (\<lambda>(tm, dx, dy, i, y, c). if terminal self tm then item ex c else 0)
                 (forward_calls ?evs))"
    unfolding fc map_append sum_list_append
    by (simp only: sum_over_calls(2) [OF len(1)] sum_over_calls(2) [OF len(2)] co)
  from tr len ec fc n lo' co' show "\<exists>evs ycs1 ycs2.
      trace w' = trace w @ evs
    \<and> length ycs1 = parts self \<and> length ycs2 = parts self
    \<and> executor_calls evs =
        map (\<lambda>i. (?A, Forward, i)) [0..<parts self]
      @ map (\<lambda>i. (?A, Backward, i)) [0..<parts self]
      @ map (\<lambda>i. (?B, Forward, i)) [0..<parts self]
      @ map (\<lambda>i. (?B, Backward, i)) [0..<parts self]
    \<and> forward_calls evs =
        map (\<lambda>i. (?A, py_slice (take (batch_size self) inputs) (i * ?ps) ((i + 1) * ?ps),
                   py_slice (take (batch_size self) labels) (i * ?ps) ((i + 1) * ?ps),
                   i, ycs1 ! i)) [0..<parts self]
      @ map (\<lambda>i. (?B, py_slice (drop (batch_size self) inputs) (i * ?ps) ((i + 1) * ?ps),
                   py_slice (drop (batch_size self) labels) (i * ?ps) ((i + 1) * ?ps),
                   i, ycs2 ! i)) [0..<parts self]
    \<and> length (forward_calls evs) = 2 * parts self
    \<and> loss = sum_list (map (\<lambda>(tm, dx, dy, i, y, c). if terminal self tm then item ex y else 0)
                 (forward_calls evs))
    \<and> corrects = sum_list (map (\<lambda>(tm, dx, dy, i, y, c). if terminal self tm then item ex c else 0)
                 (forward_calls evs))"
    by blast
qed

lemma upt_2: "[0..<2] = [0, 1]" and upt_3: "[0..<3] = [0, 1, 2]"
  by (simp_all add: upt_rec)

lemmas run_eval = run_step_allreduce_def first_replica_part_def second_replica_part_def Let_def
  int_truediv_def lift_m_def then_m_def pure_m_def example_self_def tm_of_def upt_2 upt_3
  call_forward_def call_backward_def log_def example_executor_def example_batch_def
  py_slice_def send_recv_params_unfold send_recv_grads_unfold example_inbox_world_def
  numel_def tensor_iadd_def recv_params_model_def send_params_model_def
  send_grads_model_def recv_grads_model_def dist_isend_def dist_irecv_def wait_def
  torch_zeros_def write_tensor_def read_tensor_def

lemma example_run:
  "\<exists>w'. run_step_allreduce example_executor (example_self 8 1) example_batch example_batch oi
           example_inbox_world = Inr ((136, 16), w')"
  by (cases oi) (simp_all add: run_eval)



lemma example_run_uneven:
  "\<exists>r w'. run_step_allreduce example_executor ((example_self 8 1)\<lparr>parts := 3\<rparr>)
           example_batch example_batch False example_inbox_world = Inr (r, w')"
  by (simp add: run_eval)

lemma forward_events_length:
  "length ycs = n \<Longrightarrow> length (forward_events tm dx dy ps [0..<n] ycs) = n"
  by (simp add: forward_events_def)


lemma concat_py_slices:
  "concat (map (\<lambda>i. py_slice xs (i * ps) ((i + 1) * ps)) [0..<n]) = take (n * ps) xs"
proof (induction n)
  case 0
  then show ?case by simp
next
  case (Suc n)
  have "take (Suc n * ps) xs = take (n * ps) xs @ take ps (drop (n * ps) xs)"
    using take_add [of "n * ps" ps xs] by (simp add: add.commute)
  with Suc show ?case by (simp add: py_slice_def)
qed

lemma py_slice_nth:
  "b \<le> length xs \<Longrightarrow> py_slice xs a b = map (\<lambda>j. xs ! j) [a..<b]"
  by (auto simp: py_slice_def intro!: nth_equalityI)

text \<open>
  C10. In a call of \<^verbatim>\<open>run_step_allreduce\<close> that returns, \<open>parts\<close> is not zero, the
  micro-part size is \<open>int(batch_size / parts)\<close>, the integer quotient, and micro-part
  \<open>i\<close> of each replica is the slice from \<open>i\<close> times that size to \<open>i + 1\<close> times that
  size of the replica's half; the samples passed to a replica are the first
  \<open>batch_size - batch_size mod parts\<close> of its half, so the last \<open>batch_size mod parts\<close>
  are passed to no forward pass. With \<open>2 * batch_size\<close> inputs, micro-part \<open>i\<close> holds
  the samples at exactly those indices of its half.
\<close>

theorem run_step_allreduce_micro_parts:
  "run_step_allreduce ex self inputs labels oi w = Inr (r, w') \<longrightarrow>
   parts self \<noteq> 0
   \<and> int_truediv (int (batch_size self)) (int (parts self))
       = Inr (int (batch_size self div parts self))
   \<and> (\<exists>evs. trace w' = trace w @ evs
      \<and> map (\<lambda>(tm, dx, dy, i, y, c). (tm, i, dx, dy)) (forward_calls evs) =
          map (\<lambda>i. (if oi then TrainModel2 else TrainModel1, i,
                     py_slice (take (batch_size self) inputs)
                       (i * (batch_size self div parts self)) ((i + 1) * (batch_size self div parts self)),
                     py_slice (take (batch_size self) labels)
                       (i * (batch_size self div parts self)) ((i + 1) * (batch_size self div parts self))))
            [0..<parts self]
        @ map (\<lambda>i. (if oi then TrainModel1 else TrainModel2, i,
                     py_slice (drop (batch_size self) inputs)
                       (i * (batch_size self div parts self)) ((i + 1) * (batch_size self div parts self)),
                     py_slice (drop (batch_size self) labels)
                       (i * (batch_size self div parts self)) ((i + 1) * (batch_size self div parts self))))
            [0..<parts self]
      \<and> concat (map (\<lambda>(tm, dx, dy, i, y, c). dx) (take (parts self) (forward_calls evs)))
          = take (batch_size self - batch_size self mod parts self) (take (batch_size self) inputs)
      \<and> concat (map (\<lambda>(tm, dx, dy, i, y, c). dx) (drop (parts self) (forward_calls evs)))
          = take (batch_size self - batch_size self mod parts self) (drop (batch_size self) inputs))
   \<and> (length inputs = 2 * batch_size self \<longrightarrow>
        (\<forall>i<parts self.
           py_slice (take (batch_size self) inputs)
               (i * (batch_size self div parts self)) ((i + 1) * (batch_size self div parts self))
             = map (\<lambda>j. inputs ! j)
                 [i * (batch_size self div parts self)..<(i + 1) * (batch_size self div parts self)]
         \<and> py_slice (drop (batch_size self) inputs)
               (i * (batch_size self div parts self)) ((i + 1) * (batch_size self div parts self))
             = map (\<lambda>j. inputs ! (batch_size self + j))
                 [i * (batch_size self div parts self)..<(i + 1) * (batch_size self div parts self)]))"
proof
  let ?A = "if oi then TrainModel2 else TrainModel1"
  let ?B = "if oi then TrainModel1 else TrainModel2"
  let ?ps = "batch_size self div parts self"
  let ?bs = "batch_size self"
  assume run: "run_step_allreduce ex self inputs labels oi w = Inr (r, w')"
  obtain loss corrects where r: "r = (loss, corrects)" by (cases r)
  from run_step_allreduce_trace [OF run [unfolded r]] obtain ycs1 ycs2 a where
    nz: "parts self \<noteq> 0"
    and len: "length ycs1 = parts self" "length ycs2 = parts self"
    and tr: "trace w' = trace w
         @ first_part_events self ?A oi (take ?bs inputs) (take ?bs labels) ?ps ycs1
         @ second_part_events self ?B oi a (drop ?bs inputs) (drop ?bs labels) ?ps ycs2"
    by blast
  let ?evs = "first_part_events self ?A oi (take ?bs inputs) (take ?bs labels) ?ps ycs1
         @ second_part_events self ?B oi a (drop ?bs inputs) (drop ?bs labels) ?ps ycs2"
  let ?fa = "map (\<lambda>i. (?A, py_slice (take ?bs inputs) (i * ?ps) ((i + 1) * ?ps),
                   py_slice (take ?bs labels) (i * ?ps) ((i + 1) * ?ps), i, ycs1 ! i)) [0..<parts self]"
  let ?fb = "map (\<lambda>i. (?B, py_slice (drop ?bs inputs) (i * ?ps) ((i + 1) * ?ps),
                   py_slice (drop ?bs labels) (i * ?ps) ((i + 1) * ?ps), i, ycs2 ! i)) [0..<parts self]"
  have fc: "forward_calls ?evs = ?fa @ ?fb"
    by (simp only: forward_calls_append first_part_calls(1) [OF len(1)]
          second_part_calls(1) [OF len(2)])
  have size: "int_truediv (int ?bs) (int (parts self)) = Inr (int ?ps)"
    using nz by (rule int_truediv_nat)
  have total: "parts self * ?ps = ?bs - ?bs mod parts self"
    by (simp add: minus_mod_eq_mult_div)
  have calls: "map (\<lambda>(tm, dx, dy, i, y, c). (tm, i, dx, dy)) (forward_calls ?evs) =
          map (\<lambda>i. (?A, i, py_slice (take ?bs inputs) (i * ?ps) ((i + 1) * ?ps),
                     py_slice (take ?bs labels) (i * ?ps) ((i + 1) * ?ps))) [0..<parts self]
        @ map (\<lambda>i. (?B, i, py_slice (drop ?bs inputs) (i * ?ps) ((i + 1) * ?ps),
                     py_slice (drop ?bs labels) (i * ?ps) ((i + 1) * ?ps))) [0..<parts self]"
    unfolding fc by (simp add: comp_def case_prod_beta)
  have "take (parts self) (forward_calls ?evs) = ?fa"
    unfolding fc by simp
  then have first: "concat (map (\<lambda>(tm, dx, dy, i, y, c). dx) (take (parts self) (forward_calls ?evs)))
          = take (?bs - ?bs mod parts self) (take ?bs inputs)"
    using concat_py_slices [of "take ?bs inputs" ?ps "parts self"] total
    by (simp add: comp_def case_prod_beta)
  have "drop (parts self) (forward_calls ?evs) = ?fb"
    unfolding fc by simp
  then have second: "concat (map (\<lambda>(tm, dx, dy, i, y, c). dx) (drop (parts self) (forward_calls ?evs)))
          = take (?bs - ?bs mod parts self) (drop ?bs inputs)"
    using concat_py_slices [of "drop ?bs inputs" ?ps "parts self"] total
    by (simp add: comp_def case_prod_beta)
  have ranges: "length inputs = 2 * ?bs \<longrightarrow>
        (\<forall>i<parts self.
           py_slice (take ?bs inputs) (i * ?ps) ((i + 1) * ?ps)
             = map (\<lambda>j. inputs ! j) [i * ?ps..<(i + 1) * ?ps]
         \<and> py_slice (drop ?bs inputs) (i * ?ps) ((i + 1) * ?ps)
             = map (\<lambda>j. inputs ! (?bs + j)) [i * ?ps..<(i + 1) * ?ps])"
  proof (intro impI allI)
    fix i assume l: "length inputs = 2 * ?bs" and i: "i < parts self"
    from i have "(i + 1) * ?ps \<le> parts self * ?ps"
      by (intro mult_le_mono1) simp
    also have "\<dots> \<le> ?bs" using total by simp
    finally have le: "(i + 1) * ?ps \<le> ?bs" .
    have a: "py_slice (take ?bs inputs) (i * ?ps) ((i + 1) * ?ps)
             = map (\<lambda>j. inputs ! j) [i * ?ps..<(i + 1) * ?ps]"
      using le l by (subst py_slice_nth) auto
    have b: "py_slice (drop ?bs inputs) (i * ?ps) ((i + 1) * ?ps)
             = map (\<lambda>j. inputs ! (?bs + j)) [i * ?ps..<(i + 1) * ?ps]"
      using le l by (subst py_slice_nth) auto
    from a b show "py_slice (take ?bs inputs) (i * ?ps) ((i + 1) * ?ps)
             = map (\<lambda>j. inputs ! j) [i * ?ps..<(i + 1) * ?ps]
         \<and> py_slice (drop ?bs inputs) (i * ?ps) ((i + 1) * ?ps)
             = map (\<lambda>j. inputs ! (?bs + j)) [i * ?ps..<(i + 1) * ?ps]" by simp
  qed
  from nz size tr calls first second ranges show "parts self \<noteq> 0
   \<and> int_truediv (int ?bs) (int (parts self)) = Inr (int ?ps)
   \<and> (\<exists>evs. trace w' = trace w @ evs
      \<and> map (\<lambda>(tm, dx, dy, i, y, c). (tm, i, dx, dy)) (forward_calls evs) =
          map (\<lambda>i. (?A, i, py_slice (take ?bs inputs) (i * ?ps) ((i + 1) * ?ps),
                     py_slice (take ?bs labels) (i * ?ps) ((i + 1) * ?ps))) [0..<parts self]
        @ map (\<lambda>i. (?B, i, py_slice (drop ?bs inputs) (i * ?ps) ((i + 1) * ?ps),
                     py_slice (drop ?bs labels) (i * ?ps) ((i + 1) * ?ps))) [0..<parts self]
      \<and> concat (map (\<lambda>(tm, dx, dy, i, y, c). dx) (take (parts self) (forward_calls evs)))
          = take (?bs - ?bs mod parts self) (take ?bs inputs)
      \<and> concat (map (\<lambda>(tm, dx, dy, i, y, c). dx) (drop (parts self) (forward_calls evs)))
          = take (?bs - ?bs mod parts self) (drop ?bs inputs))
   \<and> (length inputs = 2 * ?bs \<longrightarrow>
        (\<forall>i<parts self.
           py_slice (take ?bs inputs) (i * ?ps) ((i + 1) * ?ps)
             = map (\<lambda>j. inputs ! j) [i * ?ps..<(i + 1) * ?ps]
         \<and> py_slice (drop ?bs inputs) (i * ?ps) ((i + 1) * ?ps)
             = map (\<lambda>j. inputs ! (?bs + j)) [i * ?ps..<(i + 1) * ?ps]))"
    by blast
qed

lemma example_parts:
  "parts (example_self mp r) = 2" "batch_size (example_self mp r) = 8"
  "tm_of (example_self mp r) TrainModel1 = \<lparr>tm_local_rank = r, split_rank = 1, tm_split_size = 2\<rparr>"
  "tm_of (example_self mp r) TrainModel2 = \<lparr>tm_local_rank = mp - 1 - r, split_rank = 1, tm_split_size = 2\<rparr>"
  by (simp_all add: example_self_def tm_of_def)

theorem run_step_allreduce_result_witness:
  "(\<exists>w'. run_step_allreduce example_executor (example_self 8 1) example_batch example_batch False
            example_inbox_world = Inr ((136, 16), w')
      \<and> executor_calls (trace w') =
          [(TrainModel1, Forward, 0), (TrainModel1, Forward, 1),
           (TrainModel1, Backward, 0), (TrainModel1, Backward, 1),
           (TrainModel2, Forward, 0), (TrainModel2, Forward, 1),
           (TrainModel2, Backward, 0), (TrainModel2, Backward, 1)]
      \<and> map (\<lambda>(tm, dx, dy, i, y, c). (tm, dx)) (forward_calls (trace w')) =
          [(TrainModel1, [1, 2, 3, 4]), (TrainModel1, [5, 6, 7, 8]),
           (TrainModel2, [9, 10, 11, 12]), (TrainModel2, [13, 14, 15, 16])]
      \<and> (136 :: real) = sum_list (map (\<lambda>(tm, dx, dy, i, y, c).
             if terminal (example_self 8 1) tm then item example_executor y else 0)
             (forward_calls (trace w'))))
   \<and> (\<exists>w'. run_step_allreduce example_executor (example_self 8 1) example_batch example_batch True
            example_inbox_world = Inr ((136, 16), w')
      \<and> executor_calls (trace w') =
          [(TrainModel2, Forward, 0), (TrainModel2, Forward, 1),
           (TrainModel2, Backward, 0), (TrainModel2, Backward, 1),
           (TrainModel1, Forward, 0), (TrainModel1, Forward, 1),
           (TrainModel1, Backward, 0), (TrainModel1, Backward, 1)])"
proof -
  obtain w0 where r0: "run_step_allreduce example_executor (example_self 8 1) example_batch
      example_batch False example_inbox_world = Inr ((136, 16), w0)"
    using example_run [of False] by blast
  obtain w1 where r1: "run_step_allreduce example_executor (example_self 8 1) example_batch
      example_batch True example_inbox_world = Inr ((136, 16), w1)"
    using example_run [of True] by blast
  have even_step: "executor_calls (trace w0) =
          [(TrainModel1, Forward, 0), (TrainModel1, Forward, 1),
           (TrainModel1, Backward, 0), (TrainModel1, Backward, 1),
           (TrainModel2, Forward, 0), (TrainModel2, Forward, 1),
           (TrainModel2, Backward, 0), (TrainModel2, Backward, 1)]
      \<and> map (\<lambda>(tm, dx, dy, i, y, c). (tm, dx)) (forward_calls (trace w0)) =
          [(TrainModel1, [1, 2, 3, 4]), (TrainModel1, [5, 6, 7, 8]),
           (TrainModel2, [9, 10, 11, 12]), (TrainModel2, [13, 14, 15, 16])]
      \<and> (136 :: real) = sum_list (map (\<lambda>(tm, dx, dy, i, y, c).
             if terminal (example_self 8 1) tm then item example_executor y else 0)
             (forward_calls (trace w0)))"
    using run_step_allreduce_result [of example_executor "example_self 8 1" example_batch
        example_batch False example_inbox_world 136 16 w0] r0
    by (auto simp: example_parts example_inbox_fields upt_2 py_slice_def example_batch_def)
  have odd_step: "executor_calls (trace w1) =
          [(TrainModel2, Forward, 0), (TrainModel2, Forward, 1),
           (TrainModel2, Backward, 0), (TrainModel2, Backward, 1),
           (TrainModel1, Forward, 0), (TrainModel1, Forward, 1),
           (TrainModel1, Backward, 0), (TrainModel1, Backward, 1)]"
    using run_step_allreduce_result [of example_executor "example_self 8 1" example_batch
        example_batch True example_inbox_world 136 16 w1] r1
    by (auto simp: example_parts example_inbox_fields upt_2)
  from r0 even_step have a: "run_step_allreduce example_executor (example_self 8 1) example_batch
      example_batch False example_inbox_world = Inr ((136, 16), w0)
      \<and> executor_calls (trace w0) =
          [(TrainModel1, Forward, 0), (TrainModel1, Forward, 1),
           (TrainModel1, Backward, 0), (TrainModel1, Backward, 1),
           (TrainModel2, Forward, 0), (TrainModel2, Forward, 1),
           (TrainModel2, Backward, 0), (TrainModel2, Backward, 1)]
      \<and> map (\<lambda>(tm, dx, dy, i, y, c). (tm, dx)) (forward_calls (trace w0)) =
          [(TrainModel1, [1, 2, 3, 4]), (TrainModel1, [5, 6, 7, 8]),
           (TrainModel2, [9, 10, 11, 12]), (TrainModel2, [13, 14, 15, 16])]
      \<and> (136 :: real) = sum_list (map (\<lambda>(tm, dx, dy, i, y, c).
             if terminal (example_self 8 1) tm then item example_executor y else 0)
             (forward_calls (trace w0)))"
    by (rule conjI)
  from r1 odd_step have b: "run_step_allreduce example_executor (example_self 8 1) example_batch
      example_batch True example_inbox_world = Inr ((136, 16), w1)
      \<and> executor_calls (trace w1) =
          [(TrainModel2, Forward, 0), (TrainModel2, Forward, 1),
           (TrainModel2, Backward, 0), (TrainModel2, Backward, 1),
           (TrainModel1, Forward, 0), (TrainModel1, Forward, 1),
           (TrainModel1, Backward, 0), (TrainModel1, Backward, 1)]"
    by (rule conjI)
  show ?thesis
    by (rule conjI) (rule exI [of _ w0], rule a, rule exI [of _ w1], rule b)
qed


theorem run_step_allreduce_micro_parts_witness:
  "\<exists>r w'. run_step_allreduce example_executor ((example_self 8 1)\<lparr>parts := 3\<rparr>)
             example_batch example_batch False example_inbox_world = Inr (r, w')
    \<and> length example_batch = 2 * batch_size ((example_self 8 1)\<lparr>parts := 3\<rparr>)
    \<and> batch_size ((example_self 8 1)\<lparr>parts := 3\<rparr>) mod parts ((example_self 8 1)\<lparr>parts := 3\<rparr>) = 2
    \<and> concat (map (\<lambda>(tm, dx, dy, i, y, c). dx) (take 3 (forward_calls (trace w'))))
        = [1, 2, 3, 4, 5, 6]
    \<and> concat (map (\<lambda>(tm, dx, dy, i, y, c). dx) (drop 3 (forward_calls (trace w'))))
        = [9, 10, 11, 12, 13, 14]
    \<and> py_slice (take 8 example_batch) 4 6 = map (\<lambda>j. example_batch ! j) [4..<6]
    \<and> py_slice (drop 8 example_batch) 4 6 = map (\<lambda>j. example_batch ! (8 + j)) [4..<6]"
proof -
  let ?self = "(example_self 8 1)\<lparr>parts := 3\<rparr>"
  obtain r w' where run: "run_step_allreduce example_executor ?self example_batch example_batch
      False example_inbox_world = Inr (r, w')"
    using example_run_uneven by blast
  have len: "length example_batch = 2 * batch_size ?self"
    by (simp add: example_batch_def example_self_def)
  have md: "batch_size ?self mod parts ?self = 2"
    by (simp add: example_self_def)
  have flds: "parts ?self = 3" "batch_size ?self = 8"
    by (simp_all add: example_self_def)
  from run_step_allreduce_micro_parts [of example_executor ?self example_batch example_batch
        False example_inbox_world r w'] run
  have all: "(\<exists>evs. trace w' = trace example_inbox_world @ evs
      \<and> concat (map (\<lambda>(tm, dx, dy, i, y, c). dx) (take (parts ?self) (forward_calls evs)))
          = take (batch_size ?self - batch_size ?self mod parts ?self) (take (batch_size ?self) example_batch)
      \<and> concat (map (\<lambda>(tm, dx, dy, i, y, c). dx) (drop (parts ?self) (forward_calls evs)))
          = take (batch_size ?self - batch_size ?self mod parts ?self) (drop (batch_size ?self) example_batch))"
    and rng: "length example_batch = 2 * batch_size ?self \<longrightarrow>
        (\<forall>i<parts ?self.
           py_slice (take (batch_size ?self) example_batch)
               (i * (batch_size ?self div parts ?self)) ((i + 1) * (batch_size ?self div parts ?self))
             = map (\<lambda>j. example_batch ! j)
                 [i * (batch_size ?self div parts ?self)..<(i + 1) * (batch_size ?self div parts ?self)]
         \<and> py_slice (drop (batch_size ?self) example_batch)
               (i * (batch_size ?self div parts ?self)) ((i + 1) * (batch_size ?self div parts ?self))
             = map (\<lambda>j. example_batch ! (batch_size ?self + j))
                 [i * (batch_size ?self div parts ?self)..<(i + 1) * (batch_size ?self div parts ?self)])"
    by blast+
  from all have cc: "concat (map (\<lambda>(tm, dx, dy, i, y, c). dx) (take 3 (forward_calls (trace w'))))
        = [1, 2, 3, 4, 5, 6]
    \<and> concat (map (\<lambda>(tm, dx, dy, i, y, c). dx) (drop 3 (forward_calls (trace w'))))
        = [9, 10, 11, 12, 13, 14]"
    by (auto simp: flds example_inbox_fields example_batch_def)
  from rng len have "py_slice (take 8 example_batch) (2 * (8 div 3)) ((2 + 1) * (8 div 3))
             = map (\<lambda>j. example_batch ! j) [2 * (8 div 3)..<(2 + 1) * (8 div 3)]
         \<and> py_slice (drop 8 example_batch) (2 * (8 div 3)) ((2 + 1) * (8 div 3))
             = map (\<lambda>j. example_batch ! (8 + j)) [2 * (8 div 3)..<(2 + 1) * (8 div 3)]"
    unfolding flds by (elim impE allE [of _ 2]) simp_all
  then have sl: "py_slice (take 8 example_batch) 4 6 = map (\<lambda>j. example_batch ! j) [4..<6]
    \<and> py_slice (drop 8 example_batch) 4 6 = map (\<lambda>j. example_batch ! (8 + j)) [4..<6]"
    by simp
  from run len md cc sl show ?thesis by blast
qed

section \<open>The step returns\<close>

text \<open>
  A step returns whenever \<open>parts\<close> is not zero, the two messages it waits for arrive
  with the lengths of the buffers they are received into, and the local gradient buffer
  is one-dimensional of its model's size: whether \<open>parts\<close> divides \<open>batch_size\<close>
  plays no part.
\<close>

lemma tensor_iadd_returns:
  "shape a = [n] \<Longrightarrow> shape b = [n] \<Longrightarrow>
     \<exists>w'. tensor_iadd a b w = Inr ((), w') \<and> inbox w' = inbox w \<and> next_addr w' = next_addr w
       \<and> trace w' = trace w"
  by (simp add: tensor_iadd_def)

lemma first_replica_part_returns:
  assumes inb: "inbox w = m # ms"
    and len: "length m = numel (if oi then flat_params_model1 self else flat_params_model2 self)"
  shows "\<exists>lc' w1. first_replica_part ex self tm1 inputs labels oi ps lc w = Inr (lc', w1)
           \<and> inbox w1 = ms"
proof -
  obtain lo co where lc: "lc = (lo, co)" by (cases lc)
  have recv: "then_m (recv_params_model self r oi) wait = (\<lambda>w. case inbox w of
        [] \<Rightarrow> Inl Blocked
      | m # ms \<Rightarrow>
          if length m = numel (if oi then flat_params_model1 self else flat_params_model2 self)
          then Inr ((), w\<lparr>heap := write_tensor (heap w)
                              (if oi then flat_params_model1 self else flat_params_model2 self) m,
                          inbox := ms,
                          trace := trace w @
                            [Irecv (if oi then flat_params_model1 self else flat_params_model2 self) r 0,
                             Wait (RecvReq (if oi then flat_params_model1 self else flat_params_model2 self) r 0)]\<rparr>)
          else Inl RuntimeError)" for r
    by (rule ext) (rule edge_recv_params)
  have send: "then_m (send_params_model self r oi) wait = (\<lambda>w.
     Inr ((), w\<lparr>trace := trace w @
            [Isend (if oi then flat_params_model2 self else flat_params_model1 self) r 0,
             Wait (SendReq (if oi then flat_params_model2 self else flat_params_model1 self) r 0)]\<rparr>))" for r
    by (rule ext) (rule edge_send_params)
  show ?thesis
  proof (cases "tm_local_rank (tm_of self tm1) = mp_size self - 1")
    case True
    with inb len lc show ?thesis
      by (auto simp: first_replica_part_def Let_def recv send then_m_def pure_m_def
            forward_loop_result backward_loop_result forward_outputs_length)
  next
    case False
    with inb len lc show ?thesis
      by (auto simp: first_replica_part_def Let_def then_m_def pure_m_def
            send_recv_params_unfold
            forward_loop_result backward_loop_result forward_outputs_length)
  qed
qed

lemma second_replica_part_returns:
  assumes inb: "inbox w = m # ms"
    and len: "length m = (if oi then model1_size self else model2_size self)"
    and shp: "shape (if oi then flat_grads_model1 self else flat_grads_model2 self)
                = [if oi then model1_size self else model2_size self]"
  shows "\<exists>r w'. second_replica_part ex self tm2 inputs labels oi ps lc w = Inr (r, w')"
proof -
  obtain lo co where lc: "lc = (lo, co)" by (cases lc)
  have send: "then_m (send_grads_model self r oi) wait = (\<lambda>w.
     Inr ((), w\<lparr>trace := trace w @
            [Isend (if oi then flat_grads_model2 self else flat_grads_model1 self) r 0,
             Wait (SendReq (if oi then flat_grads_model2 self else flat_grads_model1 self) r 0)]\<rparr>))" for r
    by (rule ext) (rule edge_send_grads)
  have iadd: "\<exists>w'. tensor_iadd (if oi then flat_grads_model1 self else flat_grads_model2 self)
                 \<lparr>storage = a, offset = 0,
                   shape = [if oi then model1_size self else model2_size self], requires_grad = False\<rparr> v
               = Inr ((), w')" for a and v :: "('a, 'b) world"
    using shp by (simp add: tensor_iadd_def)
  show ?thesis
  proof (cases "tm_local_rank (tm_of self tm2) = mp_size self - 1")
    case True
    let ?T = "\<lparr>storage = next_addr w, offset = 0,
               shape = [if oi then model1_size self else model2_size self], requires_grad = False\<rparr>"
    let ?w0 = "w\<lparr>next_addr := Suc (next_addr w),
                 heap := (heap w)(next_addr w := m),
                 inbox := ms,
                 trace := trace w @
                   [Irecv ?T (mp_size self - 1 - local_rank self) 0,
                    Wait (RecvReq ?T (mp_size self - 1 - local_rank self) 0)]\<rparr>"
    from iadd [of "next_addr w" ?w0] obtain w1 where
      w1: "tensor_iadd (if oi then flat_grads_model1 self else flat_grads_model2 self) ?T ?w0 = Inr ((), w1)"
      by blast
    with True inb len lc show ?thesis
      by (auto simp: second_replica_part_def Let_def edge_recv_grads send then_m_def pure_m_def
            forward_loop_result backward_loop_result forward_outputs_length)
  next
    case False
    let ?w2 = "w\<lparr>heap := snd (forward_outputs ex tm2 (drop (batch_size self) inputs)
                    (drop (batch_size self) labels) ps [0..<parts self] (heap w)),
                 trace := trace w @ forward_events tm2 (drop (batch_size self) inputs)
                    (drop (batch_size self) labels) ps [0..<parts self]
                    (fst (forward_outputs ex tm2 (drop (batch_size self) inputs)
                    (drop (batch_size self) labels) ps [0..<parts self] (heap w)))\<rparr>"
    have "\<exists>w3. send_recv_grads self oi ?w2 = Inr ((), w3)"
      unfolding send_recv_grads_unfold using inb len iadd by simp
    then obtain w3 where w3: "send_recv_grads self oi ?w2 = Inr ((), w3)" by blast
    with False lc show ?thesis
      by (auto simp: second_replica_part_def Let_def then_m_def pure_m_def
            forward_loop_result backward_loop_result forward_outputs_length)
  qed
qed

lemma init_ranks:
  "init mg1 mg2 bs c1 c2 tm1 tm2 pp as rp w = Inr ((self, mg1', mg2'), w') \<Longrightarrow>
     mp_size self = comm_mp_size (mpi_comm_first self)
   \<and> local_rank self = comm_local_rank (mpi_comm_first self)"
  using init_result [of mg1 w mg2 bs c1 c2 tm1 tm2 pp as rp] by auto

lemma run_step_allreduce_returns:
  assumes nz: "parts self \<noteq> 0"
    and inb: "inbox w = m1 # m2 # ms"
    and len1: "length m1 = numel (if oi then flat_params_model1 self else flat_params_model2 self)"
    and len2: "length m2 = (if oi then model1_size self else model2_size self)"
    and shp: "shape (if oi then flat_grads_model1 self else flat_grads_model2 self)
                = [if oi then model1_size self else model2_size self]"
  shows "\<exists>r w'. run_step_allreduce ex self inputs labels oi w = Inr (r, w')"
proof -
  from first_replica_part_returns [OF inb len1]
  obtain lc w1 where one: "first_replica_part ex self (if oi then TrainModel2 else TrainModel1)
      inputs labels oi (batch_size self div parts self) (0, 0) w = Inr (lc, w1)"
    and inb1: "inbox w1 = m2 # ms"
    by blast
  from second_replica_part_returns [OF inb1 len2 shp]
  obtain r w' where "second_replica_part ex self (if oi then TrainModel1 else TrainModel2)
      inputs labels oi (batch_size self div parts self) lc w1 = Inr (r, w')"
    by blast
  with one nz show ?thesis
    by (simp add: run_step_allreduce_def Let_def lift_m_def int_truediv_nat then_m_def)
qed

end
